theory Spec2Isabelle
  imports Complex_Main
begin

section \<open>DD1750 form generator: layout constants\<close>

text \<open>
  Embedding of \<^verbatim>\<open>dd1750_generator.py\<close>. Python floats are modelled as \<^typ>\<open>real\<close>.
  Every coordinate the generator computes is a multiple of \<open>1/4\<close> below \<open>1024\<close>
  (\<open>526.5 / 18 = 29.25\<close>, row anchors \<open>611 - 29.25 * i\<close>, column centres such as
  \<open>386.75\<close>), hence exactly representable in binary64, so no rounding takes place and
  the real arithmetic below is the arithmetic of the program.
\<close>

definition ROWS_PER_PAGE :: nat where "ROWS_PER_PAGE = 18"

definition PAGE_W :: real where "PAGE_W = 612.0"
definition PAGE_H :: real where "PAGE_H = 792.0"

definition X_BOX_L :: real where "X_BOX_L = 44.0"
definition X_BOX_R :: real where "X_BOX_R = 88.0"
definition X_CONTENT_L :: real where "X_CONTENT_L = 88.0"
definition X_CONTENT_R :: real where "X_CONTENT_R = 365.0"
definition X_UOI_L :: real where "X_UOI_L = 365.0"
definition X_UOI_R :: real where "X_UOI_R = 408.5"
definition X_INIT_L :: real where "X_INIT_L = 408.5"
definition X_INIT_R :: real where "X_INIT_R = 453.5"
definition X_SPARES_L :: real where "X_SPARES_L = 453.5"
definition X_SPARES_R :: real where "X_SPARES_R = 514.5"
definition X_TOTAL_L :: real where "X_TOTAL_L = 514.5"
definition X_TOTAL_R :: real where "X_TOTAL_R = 566.0"

definition Y_TABLE_TOP_LINE :: real where "Y_TABLE_TOP_LINE = 616.0"
definition Y_TABLE_BOTTOM_LINE :: real where "Y_TABLE_BOTTOM_LINE = 89.5"
definition ROW_H :: real where
  "ROW_H = (Y_TABLE_TOP_LINE - Y_TABLE_BOTTOM_LINE) / real ROWS_PER_PAGE"
definition PAD_X :: real where "PAD_X = 3.0"

text \<open>The two dictionaries of header coordinates, keyed by field name.\<close>

definition HEADER_Y :: "string \<rightharpoonup> real" where
  "HEADER_Y = map_of
     [(''packed_by'', 735.0), (''no_boxes'', 735.0), (''req_no'', 735.0),
      (''order_no'', 710.0), (''end_item'', 685.0), (''date'', 685.0),
      (''page'', 660.0)]"

definition HEADER_X :: "string \<rightharpoonup> real" where
  "HEADER_X = map_of
     [(''packed_by'', 95.0), (''no_boxes'', 240.0), (''req_no'', 370.0),
      (''order_no'', 370.0), (''end_item'', 95.0), (''date'', 500.0),
      (''page_num'', 500.0), (''page_total'', 545.0)]"

section \<open>Data model\<close>

record DD1750Item =
  line_no :: int
  description :: string
  nsn :: string
  unit_of_issue :: string
  initial_qty :: int
  spares_qty :: int
  total_qty :: int

record DD1750Header =
  packed_by :: string
  no_boxes :: string
  requisition_no :: string
  order_no :: string
  end_item :: string
  date :: string
  certifier_name :: string
  certifier_title :: string

section \<open>The canvas: a current font and the text draws made so far\<close>

datatype alignment = Left | Centred

record draw_op =
  op_align :: alignment
  op_x :: real
  op_y :: real
  op_text :: string
  op_font :: string
  op_size :: real

record canvas =
  cur_font :: string
  cur_size :: real
  code :: "draw_op list"

text \<open>A fresh canvas has no draws; its initial font is the library default.\<close>

definition new_canvas :: canvas where
  "new_canvas = \<lparr>cur_font = ''Helvetica'', cur_size = 12, code = []\<rparr>"

definition setFont :: "string \<Rightarrow> real \<Rightarrow> canvas \<Rightarrow> canvas" where
  "setFont f s can = can\<lparr>cur_font := f, cur_size := s\<rparr>"

definition draw :: "alignment \<Rightarrow> real \<Rightarrow> real \<Rightarrow> string \<Rightarrow> canvas \<Rightarrow> canvas" where
  "draw a x y t can =
     can\<lparr>code := code can @
       [\<lparr>op_align = a, op_x = x, op_y = y, op_text = t,
         op_font = cur_font can, op_size = cur_size can\<rparr>]\<rparr>"

definition drawString :: "real \<Rightarrow> real \<Rightarrow> string \<Rightarrow> canvas \<Rightarrow> canvas" where
  "drawString = draw Left"

definition drawCentredString :: "real \<Rightarrow> real \<Rightarrow> string \<Rightarrow> canvas \<Rightarrow> canvas" where
  "drawCentredString = draw Centred"

section \<open>Python's \<^verbatim>\<open>str\<close> on integers\<close>

definition digit_char :: "nat \<Rightarrow> char" where
  "digit_char d = ''0123456789'' ! d"

fun str_nat :: "nat \<Rightarrow> string" where
  "str_nat n = (if n < 10 then [digit_char n] else str_nat (n div 10) @ [digit_char (n mod 10)])"

declare str_nat.simps [simp del]

definition str :: "int \<Rightarrow> string" where
  "str i = (if i < 0 then CHR ''-'' # str_nat (nat (- i)) else str_nat (nat i))"

section \<open>PDF documents, files and the environment\<close>

text \<open>
  A page is its content stream: opaque graphics (the printed grid and labels of the
  template) and positioned text. A document is its list of pages. Characters of a
  \<^typ>\<open>string\<close> stand for the characters of a Python \<^verbatim>\<open>str\<close>, so \<^const>\<open>length\<close> is
  \<^verbatim>\<open>len\<close> and \<^const>\<open>take\<close> is a prefix slice.
\<close>

datatype content = Graphics string | Text draw_op

type_synonym page = "content list"
type_synonym pdf = "page list"
type_synonym path = string
type_synonym files = "path \<rightharpoonup> pdf"

datatype error = FileNotFoundError | PdfReadError | IndexError | OSError

text \<open>
  What the generator cannot control: \<open>read_pdf env k p\<close> is the outcome of the
  \<^verbatim>\<open>PdfReader(p)\<close> call on a file made for the page with 0-based index \<open>k\<close> (the template
  is reopened for every page; the empty-list branch opens it once, with index \<open>0\<close>), and
  \<open>can_open_wb env p\<close> tells whether \<^verbatim>\<open>open(p, 'wb')\<close> succeeds.
\<close>

record env =
  read_pdf :: "nat \<Rightarrow> path \<Rightarrow> error + pdf"
  can_open_wb :: "path \<Rightarrow> bool"

text \<open>\<^verbatim>\<open>reader.pages[i]\<close> for a non-negative index: IndexError out of range.\<close>

definition pages_at :: "pdf \<Rightarrow> nat \<Rightarrow> error + page" where
  "pages_at doc i = (if i < length doc then Inr (doc ! i) else Inl IndexError)"

text \<open>\<^verbatim>\<open>page.merge_page(other)\<close> appends the other page's content stream.\<close>

definition merge_page :: "page \<Rightarrow> page \<Rightarrow> page" where
  "merge_page page other = page @ other"

text \<open>
  \<^verbatim>\<open>can.save()\<close> followed by \<^verbatim>\<open>PdfReader(packet)\<close>: the in-memory document holding the
  one page drawn on the canvas.
\<close>

definition save :: "canvas \<Rightarrow> pdf" where
  "save can = [map Text (code can)]"

text \<open>
  \<^verbatim>\<open>with open(output_path, 'wb') as f: writer.write(f)\<close>: when the file cannot be opened
  nothing is written.
\<close>

definition write_pdf :: "env \<Rightarrow> files \<Rightarrow> path \<Rightarrow> pdf \<Rightarrow> error + files" where
  "write_pdf env fs p doc = (if can_open_wb env p then Inr (fs(p \<mapsto> doc)) else Inl OSError)"

text \<open>\<^verbatim>\<open>xs[s:e]\<close> for non-negative bounds.\<close>

definition slice :: "'a list \<Rightarrow> nat \<Rightarrow> nat \<Rightarrow> 'a list" where
  "slice xs s e = drop s (take e xs)"

section \<open>Drawing the header\<close>

definition draw_header :: "canvas \<Rightarrow> DD1750Header \<Rightarrow> int \<Rightarrow> int \<Rightarrow> canvas" where
  "draw_header can header page_num total_pages =
     (let can = setFont ''Helvetica'' 10 can;
          can = (if packed_by header \<noteq> []
                 then drawString (the (HEADER_X ''packed_by'')) (the (HEADER_Y ''packed_by''))
                        (packed_by header) can
                 else can);
          can = (if no_boxes header \<noteq> []
                 then drawString (the (HEADER_X ''no_boxes'')) (the (HEADER_Y ''no_boxes''))
                        (no_boxes header) can
                 else can);
          can = (if requisition_no header \<noteq> []
                 then drawString (the (HEADER_X ''req_no'')) (the (HEADER_Y ''req_no''))
                        (requisition_no header) can
                 else can);
          can = (if order_no header \<noteq> []
                 then drawString (the (HEADER_X ''order_no'')) (the (HEADER_Y ''order_no''))
                        (order_no header) can
                 else can);
          can = (if end_item header \<noteq> []
                 then drawString (the (HEADER_X ''end_item'')) (the (HEADER_Y ''end_item''))
                        (take 60 (end_item header)) (setFont ''Helvetica'' 8 can)
                 else can);
          can = setFont ''Helvetica'' 10 can;
          can = (if date header \<noteq> []
                 then drawString (the (HEADER_X ''date'')) (the (HEADER_Y ''date''))
                        (date header) can
                 else can);
          can = drawString (the (HEADER_X ''page_num'')) (the (HEADER_Y ''page''))
                  (str page_num) can;
          can = drawString (the (HEADER_X ''page_total'')) (the (HEADER_Y ''page''))
                  (str total_pages) can
      in if certifier_name header \<noteq> [] \<or> certifier_title header \<noteq> []
         then (let can = setFont ''Helvetica'' 9 can;
                   cert_y = 55.0;
                   can = (if certifier_name header \<noteq> []
                          then drawString 95.0 cert_y (certifier_name header) can
                          else can)
               in if certifier_title header \<noteq> []
                  then drawString 280.0 cert_y (certifier_title header) can
                  else can)
         else can)"

section \<open>Drawing one row and one page overlay\<close>

text \<open>The body of the loop over \<^verbatim>\<open>enumerate(page_items)\<close>.\<close>

definition draw_row :: "real \<Rightarrow> nat \<Rightarrow> DD1750Item \<Rightarrow> canvas \<Rightarrow> canvas" where
  "draw_row first_row_top i item can =
     (let y = first_row_top - (real i * ROW_H);
          y_desc = y - 7.0;
          y_nsn = y - 17.0;
          can = setFont ''Helvetica'' 8 can;
          can = drawCentredString ((X_BOX_L + X_BOX_R) / 2) y_desc (str (line_no item)) can;
          can = setFont ''Helvetica'' 7 can;
          desc = (if length (description item) > 50 then take 50 (description item)
                  else description item);
          can = drawString (X_CONTENT_L + PAD_X) y_desc desc can;
          can = (if nsn item \<noteq> []
                 then drawString (X_CONTENT_L + PAD_X) y_nsn (''NSN: '' @ nsn item)
                        (setFont ''Helvetica'' 6 can)
                 else can);
          can = setFont ''Helvetica'' 8 can;
          can = drawCentredString ((X_UOI_L + X_UOI_R) / 2) y_desc (unit_of_issue item) can;
          can = drawCentredString ((X_INIT_L + X_INIT_R) / 2) y_desc (str (initial_qty item)) can;
          can = drawCentredString ((X_SPARES_L + X_SPARES_R) / 2) y_desc
                  (str (spares_qty item)) can;
          can = drawCentredString ((X_TOTAL_L + X_TOTAL_R) / 2) y_desc (str (total_qty item)) can
      in can)"

text \<open>
  The canvas part of the page loop's body: a fresh canvas, the header (or only the
  page numbers when no header is given), then the rows.
\<close>

definition compose_overlay ::
  "DD1750Header option \<Rightarrow> nat \<Rightarrow> nat \<Rightarrow> DD1750Item list \<Rightarrow> canvas" where
  "compose_overlay header page_num total_pages page_items =
     (let can = new_canvas;
          can = (case header of
                   Some h \<Rightarrow> draw_header can h (int page_num + 1) (int total_pages)
                 | None \<Rightarrow>
                     (let can = setFont ''Helvetica'' 10 can;
                          can = drawString (the (HEADER_X ''page_num'')) (the (HEADER_Y ''page''))
                                  (str (int page_num + 1)) can
                      in drawString (the (HEADER_X ''page_total'')) (the (HEADER_Y ''page''))
                           (str (int total_pages)) can));
          first_row_top = Y_TABLE_TOP_LINE - 5.0
      in fold (\<lambda>(i, item). draw_row first_row_top i item) (enumerate 0 page_items) can)"

section \<open>Pagination and the generator\<close>

definition page_items_of :: "DD1750Item list \<Rightarrow> nat \<Rightarrow> DD1750Item list" where
  "page_items_of items page_num =
     (let start_idx = page_num * ROWS_PER_PAGE;
          end_idx = min ((page_num + 1) * ROWS_PER_PAGE) (length items)
      in slice items start_idx end_idx)"

text \<open>One iteration of the page loop: the finished page, or the error raised.\<close>

definition compose_page ::
  "env \<Rightarrow> DD1750Item list \<Rightarrow> path \<Rightarrow> DD1750Header option \<Rightarrow> nat \<Rightarrow> nat \<Rightarrow> error + page" where
  "compose_page env items template_path header total_pages page_num =
     (let page_items = page_items_of items page_num;
          can = compose_overlay header page_num total_pages page_items;
          overlay = save can
      in case read_pdf env page_num template_path of
           Inl e \<Rightarrow> Inl e
         | Inr template \<Rightarrow>
             (case pages_at template 0 of
                Inl e \<Rightarrow> Inl e
              | Inr page \<Rightarrow>
                  (case pages_at overlay 0 of
                     Inl e \<Rightarrow> Inl e
                   | Inr over \<Rightarrow> Inr (merge_page page over))))"

text \<open>
  \<^verbatim>\<open>for page_num in range(total_pages)\<close>, the writer's pages as accumulator; an error
  raised in an iteration ends the loop.
\<close>

fun page_loop ::
  "env \<Rightarrow> DD1750Item list \<Rightarrow> path \<Rightarrow> DD1750Header option \<Rightarrow> nat \<Rightarrow> nat list \<Rightarrow> pdf
     \<Rightarrow> error + pdf" where
  "page_loop env items template_path header total_pages [] writer = Inr writer"
| "page_loop env items template_path header total_pages (page_num # rest) writer =
     (case compose_page env items template_path header total_pages page_num of
        Inl e \<Rightarrow> Inl e
      | Inr page \<Rightarrow>
          page_loop env items template_path header total_pages rest (writer @ [page]))"

text \<open>
  The generator returns the raised error or the pair \<open>(output_path, item_count)\<close>,
  together with the files after the call. \<^verbatim>\<open>math.ceil(len(items) / ROWS_PER_PAGE)\<close> divides
  in floating point; the quotient of a list length by 18 is far from the range where
  rounding could reach the next integer, so it is the exact ceiling.
\<close>

definition generate_dd1750 ::
  "env \<Rightarrow> files \<Rightarrow> DD1750Item list \<Rightarrow> path \<Rightarrow> path \<Rightarrow> DD1750Header option
     \<Rightarrow> (error + path \<times> nat) \<times> files" where
  "generate_dd1750 env fs items template_path output_path header =
     (if items = [] then
        (case read_pdf env 0 template_path of
           Inl e \<Rightarrow> (Inl e, fs)
         | Inr reader \<Rightarrow>
             (case pages_at reader 0 of
                Inl e \<Rightarrow> (Inl e, fs)
              | Inr page \<Rightarrow>
                  (case write_pdf env fs output_path [page] of
                     Inl e \<Rightarrow> (Inl e, fs)
                   | Inr fs' \<Rightarrow> (Inr (output_path, 0), fs'))))
      else
        (let total_pages = nat \<lceil>real (length items) / real ROWS_PER_PAGE\<rceil> in
         case page_loop env items template_path header total_pages [0..<total_pages] [] of
           Inl e \<Rightarrow> (Inl e, fs)
         | Inr writer \<Rightarrow>
             (case write_pdf env fs output_path writer of
                Inl e \<Rightarrow> (Inl e, fs)
              | Inr fs' \<Rightarrow> (Inr (output_path, length items), fs'))))"

section \<open>Auxiliary facts: pagination\<close>

lemma page_items_of_eq:
  "page_items_of items p = take ROWS_PER_PAGE (drop (p * ROWS_PER_PAGE) items)"
proof (cases "(p + 1) * ROWS_PER_PAGE \<le> length items")
  case True
  then show ?thesis
    by (simp add: page_items_of_def slice_def Let_def drop_take min_def)
next
  case False
  then show ?thesis
    by (simp add: page_items_of_def slice_def Let_def drop_take min_def)
qed

lemma concat_chunks:
  "concat (map (\<lambda>p. take k (drop (p * k) xs)) [0..<n]) = take (n * k) xs"
proof (induction n)
  case 0 then show ?case by simp
next
  case (Suc n)
  have "Suc n * k = n * k + k" by simp
  then have "take (Suc n * k) xs = take (n * k) xs @ take k (drop (n * k) xs)"
    by (simp only: take_add)
  with Suc show ?case by simp
qed

lemma total_pages_div:
  "nat \<lceil>real n / real ROWS_PER_PAGE\<rceil> = (n + 17) div 18"
proof -
  have "\<lceil>real n / real ROWS_PER_PAGE\<rceil> = \<lceil>real_of_int (int n) / real_of_int 18\<rceil>"
    by (simp add: ROWS_PER_PAGE_def)
  also have "\<dots> = - (- int n div 18)"
    by (simp only: ceiling_divide_eq_div)
  also have "\<dots> = (int n + 17) div 18" by linarith
  finally show ?thesis by (simp add: nat_div_distrib)
qed

lemma total_pages_covers:
  "length items \<le> nat \<lceil>real (length items) / real ROWS_PER_PAGE\<rceil> * ROWS_PER_PAGE"
  unfolding total_pages_div by (simp add: ROWS_PER_PAGE_def) 

lemma pagination:
  "concat (map (page_items_of items) [0..<nat \<lceil>real (length items) / real ROWS_PER_PAGE\<rceil>]) = items"
proof -
  have "concat (map (page_items_of items) [0..<nat \<lceil>real (length items) / real ROWS_PER_PAGE\<rceil>])
      = take (nat \<lceil>real (length items) / real ROWS_PER_PAGE\<rceil> * ROWS_PER_PAGE) items"
    using concat_chunks [of ROWS_PER_PAGE items] by (simp add: page_items_of_eq [abs_def])
  then show ?thesis using total_pages_covers [of items] by simp
qed

section \<open>Auxiliary facts: what a canvas holds after drawing\<close>

lemma code_setFont: "code (setFont f s can) = code can"
  and cur_font_setFont: "cur_font (setFont f s can) = f"
  and cur_size_setFont: "cur_size (setFont f s can) = s"
  by (simp_all add: setFont_def)

lemma code_draw:
  "code (draw a x y t can) = code can @
     [\<lparr>op_align = a, op_x = x, op_y = y, op_text = t,
       op_font = cur_font can, op_size = cur_size can\<rparr>]"
  and cur_font_draw: "cur_font (draw a x y t can) = cur_font can"
  and cur_size_draw: "cur_size (draw a x y t can) = cur_size can"
  by (simp_all add: draw_def)

lemmas canvas_simps =
  code_setFont cur_font_setFont cur_size_setFont code_draw cur_font_draw cur_size_draw
  drawString_def drawCentredString_def

lemma draw_row_code:
  "code (draw_row first_row_top i item can) = code can @
     [\<lparr>op_align = Centred, op_x = (X_BOX_L + X_BOX_R) / 2,
       op_y = first_row_top - real i * ROW_H - 7,
       op_text = str (line_no item), op_font = ''Helvetica'', op_size = 8\<rparr>,
      \<lparr>op_align = Left, op_x = X_CONTENT_L + 3,
       op_y = first_row_top - real i * ROW_H - 7,
       op_text = take 50 (description item), op_font = ''Helvetica'', op_size = 7\<rparr>] @
     (if nsn item \<noteq> []
      then [\<lparr>op_align = Left, op_x = X_CONTENT_L + 3,
              op_y = first_row_top - real i * ROW_H - 17,
              op_text = ''NSN: '' @ nsn item, op_font = ''Helvetica'', op_size = 6\<rparr>]
      else []) @
     [\<lparr>op_align = Centred, op_x = (X_UOI_L + X_UOI_R) / 2,
       op_y = first_row_top - real i * ROW_H - 7,
       op_text = unit_of_issue item, op_font = ''Helvetica'', op_size = 8\<rparr>,
      \<lparr>op_align = Centred, op_x = (X_INIT_L + X_INIT_R) / 2,
       op_y = first_row_top - real i * ROW_H - 7,
       op_text = str (initial_qty item), op_font = ''Helvetica'', op_size = 8\<rparr>,
      \<lparr>op_align = Centred, op_x = (X_SPARES_L + X_SPARES_R) / 2,
       op_y = first_row_top - real i * ROW_H - 7,
       op_text = str (spares_qty item), op_font = ''Helvetica'', op_size = 8\<rparr>,
      \<lparr>op_align = Centred, op_x = (X_TOTAL_L + X_TOTAL_R) / 2,
       op_y = first_row_top - real i * ROW_H - 7,
       op_text = str (total_qty item), op_font = ''Helvetica'', op_size = 8\<rparr>]"
  by (simp add: draw_row_def Let_def canvas_simps PAD_X_def)

lemma fold_rows_code:
  assumes "\<And>i item can. code (f i item can) = code can @ R i item"
  shows "code (fold (\<lambda>(i, item). f i item) (enumerate n xs) can) =
           code can @ concat (map (\<lambda>(i, item). R i item) (enumerate n xs))"
  by (induction xs arbitrary: n can) (simp_all add: assms)

lemma header_coords:
  "the (HEADER_X ''packed_by'') = 95" "the (HEADER_Y ''packed_by'') = 735"
  "the (HEADER_X ''no_boxes'') = 240" "the (HEADER_Y ''no_boxes'') = 735"
  "the (HEADER_X ''req_no'') = 370" "the (HEADER_Y ''req_no'') = 735"
  "the (HEADER_X ''order_no'') = 370" "the (HEADER_Y ''order_no'') = 710"
  "the (HEADER_X ''end_item'') = 95" "the (HEADER_Y ''end_item'') = 685"
  "the (HEADER_X ''date'') = 500" "the (HEADER_Y ''date'') = 685"
  "the (HEADER_X ''page_num'') = 500" "the (HEADER_X ''page_total'') = 545"
  "the (HEADER_Y ''page'') = 660"
  by (simp_all add: HEADER_X_def HEADER_Y_def)

lemma code_optional_draw:
  "code (if c then draw a x y t can else can) = code can @
     (if c then [\<lparr>op_align = a, op_x = x, op_y = y, op_text = t,
                   op_font = cur_font can, op_size = cur_size can\<rparr>] else [])"
  and cur_font_optional_draw: "cur_font (if c then draw a x y t can else can) = cur_font can"
  and cur_size_optional_draw: "cur_size (if c then draw a x y t can else can) = cur_size can"
  by (simp_all add: draw_def)

lemma code_optional_draw_font:
  "code (if c then draw a x y t (setFont f s can) else can) = code can @
     (if c then [\<lparr>op_align = a, op_x = x, op_y = y, op_text = t,
                   op_font = f, op_size = s\<rparr>] else [])"
  by (simp add: draw_def setFont_def)

lemma draw_header_code:
  "code (draw_header can h page_num total_pages) = code can @
     (if packed_by h \<noteq> []
      then [\<lparr>op_align = Left, op_x = 95, op_y = 735, op_text = packed_by h,
              op_font = ''Helvetica'', op_size = 10\<rparr>]
      else []) @
     (if no_boxes h \<noteq> []
      then [\<lparr>op_align = Left, op_x = 240, op_y = 735, op_text = no_boxes h,
              op_font = ''Helvetica'', op_size = 10\<rparr>]
      else []) @
     (if requisition_no h \<noteq> []
      then [\<lparr>op_align = Left, op_x = 370, op_y = 735, op_text = requisition_no h,
              op_font = ''Helvetica'', op_size = 10\<rparr>]
      else []) @
     (if order_no h \<noteq> []
      then [\<lparr>op_align = Left, op_x = 370, op_y = 710, op_text = order_no h,
              op_font = ''Helvetica'', op_size = 10\<rparr>]
      else []) @
     (if end_item h \<noteq> []
      then [\<lparr>op_align = Left, op_x = 95, op_y = 685, op_text = take 60 (end_item h),
              op_font = ''Helvetica'', op_size = 8\<rparr>]
      else []) @
     (if date h \<noteq> []
      then [\<lparr>op_align = Left, op_x = 500, op_y = 685, op_text = date h,
              op_font = ''Helvetica'', op_size = 10\<rparr>]
      else []) @
     [\<lparr>op_align = Left, op_x = 500, op_y = 660, op_text = str page_num,
       op_font = ''Helvetica'', op_size = 10\<rparr>,
      \<lparr>op_align = Left, op_x = 545, op_y = 660, op_text = str total_pages,
       op_font = ''Helvetica'', op_size = 10\<rparr>] @
     (if certifier_name h \<noteq> []
      then [\<lparr>op_align = Left, op_x = 95, op_y = 55, op_text = certifier_name h,
              op_font = ''Helvetica'', op_size = 9\<rparr>]
      else []) @
     (if certifier_title h \<noteq> []
      then [\<lparr>op_align = Left, op_x = 280, op_y = 55, op_text = certifier_title h,
              op_font = ''Helvetica'', op_size = 9\<rparr>]
      else [])"
proof -
  show ?thesis
    by (cases "certifier_name h = []"; cases "certifier_title h = []")
       (simp_all add: draw_header_def Let_def header_coords drawString_def
          code_optional_draw cur_font_optional_draw cur_size_optional_draw
          code_optional_draw_font code_setFont cur_font_setFont cur_size_setFont
          code_draw cur_font_draw cur_size_draw
          del: if_split split del: if_split cong: if_cong)
qed

section \<open>Auxiliary facts: the page loop and the generator\<close>

lemma compose_page_ok:
  assumes "read_pdf env p template_path = Inr tpl" and "tpl \<noteq> []"
  shows "compose_page env items template_path header total_pages p =
           Inr (tpl ! 0 @ map Text (code (compose_overlay header p total_pages
                                            (page_items_of items p))))"
  using assms by (simp add: compose_page_def Let_def pages_at_def save_def merge_page_def)

lemma compose_page_fail:
  assumes "read_pdf env p template_path = Inl err \<or> read_pdf env p template_path = Inr []"
  shows "\<exists>e. compose_page env items template_path header total_pages p = Inl e"
  using assms by (auto simp add: compose_page_def Let_def pages_at_def)

lemma page_loop_ok:
  assumes "\<And>p. p \<in> set ps \<Longrightarrow> read_pdf env p template_path = Inr (tpl p) \<and> tpl p \<noteq> []"
  shows "page_loop env items template_path header total_pages ps writer =
           Inr (writer @ map (\<lambda>p. tpl p ! 0 @ map Text (code (compose_overlay header p total_pages
                                            (page_items_of items p)))) ps)"
  using assms
proof (induction ps arbitrary: writer)
  case Nil
  then show ?case by simp
next
  case (Cons p ps)
  from Cons.prems [of p] have "read_pdf env p template_path = Inr (tpl p)" "tpl p \<noteq> []"
    by simp_all
  then have "compose_page env items template_path header total_pages p =
           Inr (tpl p ! 0 @ map Text (code (compose_overlay header p total_pages
                                            (page_items_of items p))))"
    by (rule compose_page_ok)
  moreover have "\<And>q. q \<in> set ps \<Longrightarrow> read_pdf env q template_path = Inr (tpl q) \<and> tpl q \<noteq> []"
    using Cons.prems by simp
  ultimately show ?case using Cons.IH by simp
qed

lemma page_loop_fail:
  assumes "p \<in> set ps"
    and "read_pdf env p template_path = Inl err \<or> read_pdf env p template_path = Inr []"
  shows "\<exists>e. page_loop env items template_path header total_pages ps writer = Inl e"
  using assms(1)
proof (induction ps arbitrary: writer)
  case Nil
  then show ?case by simp
next
  case (Cons q ps)
  show ?case
  proof (cases "compose_page env items template_path header total_pages q")
    case (Inl e)
    then show ?thesis by simp
  next
    case (Inr page)
    with compose_page_fail [OF assms(2), of items header total_pages] have "q \<noteq> p"
      by auto
    with Cons.prems have "p \<in> set ps" by simp
    with Cons.IH Inr show ?thesis by simp
  qed
qed

lemma total_pages_pos:
  "items \<noteq> [] \<Longrightarrow> 0 < nat \<lceil>real (length items) / real ROWS_PER_PAGE\<rceil>"
  unfolding total_pages_div by (cases items) simp_all

lemma generate_dd1750_pages:
  assumes "items \<noteq> []"
    and "\<And>p. p < nat \<lceil>real (length items) / real ROWS_PER_PAGE\<rceil> \<Longrightarrow>
           read_pdf env p template_path = Inr (tpl p) \<and> tpl p \<noteq> []"
    and "can_open_wb env output_path"
  shows "generate_dd1750 env fs items template_path output_path header =
           (Inr (output_path, length items),
            fs(output_path \<mapsto>
               map (\<lambda>p. tpl p ! 0 @ map Text (code (compose_overlay header p
                      (nat \<lceil>real (length items) / real ROWS_PER_PAGE\<rceil>) (page_items_of items p))))
                 [0..<nat \<lceil>real (length items) / real ROWS_PER_PAGE\<rceil>]))"
proof -
  let ?n = "nat \<lceil>real (length items) / real ROWS_PER_PAGE\<rceil>"
  have "page_loop env items template_path header ?n [0..<?n] [] =
          Inr ([] @ map (\<lambda>p. tpl p ! 0 @ map Text (code (compose_overlay header p ?n
                                            (page_items_of items p)))) [0..<?n])"
    by (rule page_loop_ok) (simp add: assms(2))
  then show ?thesis
    using assms(1,3) by (simp add: generate_dd1750_def Let_def write_pdf_def)
qed

lemma generate_dd1750_empty:
  assumes "read_pdf env 0 template_path = Inr tpl" and "tpl \<noteq> []"
    and "can_open_wb env output_path"
  shows "generate_dd1750 env fs [] template_path output_path header =
           (Inr (output_path, 0), fs(output_path \<mapsto> [tpl ! 0]))"
  using assms by (simp add: generate_dd1750_def pages_at_def write_pdf_def)

lemma generate_dd1750_failure_keeps_files:
  "fst (generate_dd1750 env fs items template_path output_path header) = Inl e \<Longrightarrow>
   snd (generate_dd1750 env fs items template_path output_path header) = fs"
  by (auto simp add: generate_dd1750_def Let_def split: if_splits sum.splits)

section \<open>Auxiliary facts: a page overlay\<close>

lemma draw_row_code_fresh:
  "code (draw_row first_row_top i item can) =
     code can @ code (draw_row first_row_top i item new_canvas)"
  by (simp only: draw_row_code [of first_row_top i item can]
        draw_row_code [of first_row_top i item new_canvas])
     (simp add: new_canvas_def)

lemma compose_overlay_code:
  "code (compose_overlay header page_num total_pages page_items) =
     code (compose_overlay header page_num total_pages []) @
     concat (map (\<lambda>(i, item). code (draw_row (Y_TABLE_TOP_LINE - 5) i item new_canvas))
               (enumerate 0 page_items))"
proof -
  have "\<And>i item can. code (draw_row (Y_TABLE_TOP_LINE - 5) i item can) =
          code can @ code (draw_row (Y_TABLE_TOP_LINE - 5) i item new_canvas)"
    by (rule draw_row_code_fresh)
  from fold_rows_code [of "draw_row (Y_TABLE_TOP_LINE - 5)"
      "\<lambda>i item. code (draw_row (Y_TABLE_TOP_LINE - 5) i item new_canvas)", OF this]
  show ?thesis by (simp add: compose_overlay_def Let_def)
qed

lemma compose_overlay_no_header:
  "code (compose_overlay None page_num total_pages []) =
     [\<lparr>op_align = Left, op_x = 500, op_y = 660, op_text = str (int page_num + 1),
       op_font = ''Helvetica'', op_size = 10\<rparr>,
      \<lparr>op_align = Left, op_x = 545, op_y = 660, op_text = str (int total_pages),
       op_font = ''Helvetica'', op_size = 10\<rparr>]"
  by (simp add: compose_overlay_def Let_def canvas_simps header_coords new_canvas_def)

lemma ROW_H_eq: "ROW_H = 29.25"
  by (simp add: ROW_H_def Y_TABLE_TOP_LINE_def Y_TABLE_BOTTOM_LINE_def ROWS_PER_PAGE_def)

lemma row_below_table_top:
  "filter (\<lambda>d. Y_TABLE_TOP_LINE < op_y d)
     (code (draw_row (Y_TABLE_TOP_LINE - 5) i item new_canvas)) = []"
proof -
  have "0 \<le> real i * ROW_H" by (simp add: ROW_H_eq)
  then show ?thesis
    by (simp add: draw_row_code new_canvas_def)
qed

lemma generate_dd1750_pages18:
  assumes "items \<noteq> []"
    and "\<forall>p < nat \<lceil>real (length items) / 18\<rceil>.
           read_pdf env p template_path = Inr (tpl p) \<and> tpl p \<noteq> []"
    and "can_open_wb env output_path"
  shows "generate_dd1750 env fs items template_path output_path header =
           (Inr (output_path, length items),
            fs(output_path \<mapsto>
               map (\<lambda>p. tpl p ! 0 @ map Text (code (compose_overlay header p
                      (nat \<lceil>real (length items) / 18\<rceil>) (page_items_of items p))))
                 [0..<nat \<lceil>real (length items) / 18\<rceil>]))"
proof -
  have n: "nat \<lceil>real (length items) / 18\<rceil> = nat \<lceil>real (length items) / real ROWS_PER_PAGE\<rceil>"
    by (simp add: ROWS_PER_PAGE_def)
  from assms(2) have "\<And>p. p < nat \<lceil>real (length items) / real ROWS_PER_PAGE\<rceil> \<Longrightarrow>
      read_pdf env p template_path = Inr (tpl p) \<and> tpl p \<noteq> []"
    unfolding n by blast
  from generate_dd1750_pages [OF assms(1) this assms(3)] show ?thesis
    unfolding n .
qed

lemma compose_overlay_Some_code:
  "code (compose_overlay (Some h) page_num total_pages page_items) =
     code (draw_header new_canvas h (int page_num + 1) (int total_pages)) @
     concat (map (\<lambda>(i, item). code (draw_row (Y_TABLE_TOP_LINE - 5) i item new_canvas))
               (enumerate 0 page_items))"
  using compose_overlay_code [of "Some h" page_num total_pages page_items]
  by (simp add: compose_overlay_def Let_def)

lemma compose_overlay_None_code:
  "code (compose_overlay None page_num total_pages page_items) =
     [\<lparr>op_align = Left, op_x = 500, op_y = 660, op_text = str (int page_num + 1),
       op_font = ''Helvetica'', op_size = 10\<rparr>,
      \<lparr>op_align = Left, op_x = 545, op_y = 660, op_text = str (int total_pages),
       op_font = ''Helvetica'', op_size = 10\<rparr>] @
     concat (map (\<lambda>(i, item). code (draw_row (Y_TABLE_TOP_LINE - 5) i item new_canvas))
               (enumerate 0 page_items))"
  using compose_overlay_code [of None page_num total_pages page_items]
  by (simp add: compose_overlay_no_header)

lemmas str_eval = str_def str_nat.simps digit_char_def

lemmas column_defs =
  X_BOX_L_def X_BOX_R_def X_CONTENT_L_def X_UOI_L_def X_UOI_R_def X_INIT_L_def X_INIT_R_def
  X_SPARES_L_def X_SPARES_R_def X_TOTAL_L_def X_TOTAL_R_def

lemma page_items_of_eq18:
  "page_items_of items p = take 18 (drop (18 * p) items)"
  using page_items_of_eq [of items p] by (simp add: ROWS_PER_PAGE_def mult.commute)

lemma truncate_eq_take:
  "(if n < length xs then take n xs else xs) = take n xs"
  by simp

lemma total_pages_div18:
  "nat \<lceil>real n / 18\<rceil> = (n + 17) div 18"
  using total_pages_div [of n] by (simp add: ROWS_PER_PAGE_def)

lemma generate_dd1750_document:
  assumes "\<forall>p < max 1 (nat \<lceil>real (length items) / 18\<rceil>).
             read_pdf env p template_path = Inr (tpl p) \<and> tpl p \<noteq> []"
    and "can_open_wb env output_path"
  shows "generate_dd1750 env fs items template_path output_path header =
           (Inr (output_path, length items),
            fs(output_path \<mapsto>
               (if items = [] then [tpl 0 ! 0]
                else map (\<lambda>p. tpl p ! 0 @ map Text (code (compose_overlay header p
                       (nat \<lceil>real (length items) / 18\<rceil>) (page_items_of items p))))
                  [0..<nat \<lceil>real (length items) / 18\<rceil>])))"
proof (cases "items = []")
  case True
  have "(0::nat) < max 1 (nat \<lceil>real (length items) / 18\<rceil>)" by simp
  with assms(1) have "read_pdf env 0 template_path = Inr (tpl 0)" "tpl 0 \<noteq> []"
    by blast+
  from generate_dd1750_empty [OF this assms(2), of fs header] True show ?thesis
    by simp
next
  case False
  from assms(1) have "\<forall>p < nat \<lceil>real (length items) / 18\<rceil>.
      read_pdf env p template_path = Inr (tpl p) \<and> tpl p \<noteq> []"
    by simp
  from generate_dd1750_pages18 [OF False this assms(2), of fs header] False show ?thesis
    by simp
qed

lemma pagination18:
  "concat (map (\<lambda>p. take 18 (drop (18 * p) items)) [0..<nat \<lceil>real (length items) / 18\<rceil>]) = (items :: DD1750Item list)"
proof -
  have "nat \<lceil>real (length items) / 18\<rceil> = nat \<lceil>real (length items) / real ROWS_PER_PAGE\<rceil>"
    by (simp add: ROWS_PER_PAGE_def)
  with pagination [of items] show ?thesis
    by (simp add: page_items_of_eq18 [abs_def])
qed

section \<open>Page count, pagination, the empty list, failure\<close>

text \<open>
  C1. When the template can be read (with at least one page) each time it is opened and
  the output file can be opened, the generator succeeds for every item list and the
  document it writes has \<open>max 1 \<lceil>N / 18\<rceil>\<close> pages, where \<open>N\<close> is the number of items.
\<close>

theorem page_count:
  assumes "\<forall>p < max 1 (nat \<lceil>real (length items) / 18\<rceil>).
             \<exists>tpl. read_pdf env p template_path = Inr tpl \<and> tpl \<noteq> []"
    and "can_open_wb env output_path"
  shows "\<exists>doc. generate_dd1750 env fs items template_path output_path header =
                 (Inr (output_path, length items), fs(output_path \<mapsto> doc)) \<and>
               length doc = max 1 (nat \<lceil>real (length items) / 18\<rceil>)"
proof (cases "items = []")
  case True
  have "(0::nat) < max 1 (nat \<lceil>real (length items) / 18\<rceil>)" by simp
  with assms(1) have "\<exists>tpl. read_pdf env 0 template_path = Inr tpl \<and> tpl \<noteq> []"
    by blast
  then obtain tpl where "read_pdf env 0 template_path = Inr tpl" "tpl \<noteq> []"
    by blast
  from generate_dd1750_empty [OF this assms(2)] True
  have "generate_dd1750 env fs items template_path output_path header =
          (Inr (output_path, length items), fs(output_path \<mapsto> [tpl ! 0])) \<and>
        length [tpl ! 0] = max 1 (nat \<lceil>real (length items) / 18\<rceil>)"
    by simp
  then show ?thesis by blast
next
  case False
  let ?n = "nat \<lceil>real (length items) / real ROWS_PER_PAGE\<rceil>"
  have n: "nat \<lceil>real (length items) / 18\<rceil> = ?n"
    by (simp add: ROWS_PER_PAGE_def)
  have pos: "0 < ?n" using False by (rule total_pages_pos)
  with assms(1) have "\<forall>p < ?n. \<exists>tpl. read_pdf env p template_path = Inr tpl \<and> tpl \<noteq> []"
    unfolding n by simp
  then obtain tpl where
    "\<And>p. p < ?n \<Longrightarrow> read_pdf env p template_path = Inr (tpl p) \<and> tpl p \<noteq> []"
    by metis
  from generate_dd1750_pages [OF False this assms(2), of fs header]
  obtain doc where
    g: "generate_dd1750 env fs items template_path output_path header =
          (Inr (output_path, length items), fs(output_path \<mapsto> doc))"
    and d: "length doc = ?n"
    by simp
  from d pos have "length doc = max 1 ?n" by linarith
  with g show ?thesis unfolding n by blast
qed

text \<open>Nineteen items give two pages, eighteen items one page, no items one page.\<close>

theorem page_count_witness:
  "(\<exists>doc. generate_dd1750
      \<lparr>read_pdf = (\<lambda>k p. Inr [[Graphics ''DD1750'']]), can_open_wb = (\<lambda>p. True)\<rparr> Map.empty
      (replicate 19 \<lparr>line_no = 1, description = ''BOLT'', nsn = [],
         unit_of_issue = ''EA'', initial_qty = 1, spares_qty = 0, total_qty = 1\<rparr>)
      ''blank.pdf'' ''out.pdf'' None = (Inr (''out.pdf'', 19), [''out.pdf'' \<mapsto> doc]) \<and> length doc = 2) \<and>
   (\<exists>doc. generate_dd1750
      \<lparr>read_pdf = (\<lambda>k p. Inr [[Graphics ''DD1750'']]), can_open_wb = (\<lambda>p. True)\<rparr> Map.empty
      (replicate 18 \<lparr>line_no = 1, description = ''BOLT'', nsn = [],
         unit_of_issue = ''EA'', initial_qty = 1, spares_qty = 0, total_qty = 1\<rparr>)
      ''blank.pdf'' ''out.pdf'' None = (Inr (''out.pdf'', 18), [''out.pdf'' \<mapsto> doc]) \<and> length doc = 1) \<and>
   (\<exists>doc. generate_dd1750
      \<lparr>read_pdf = (\<lambda>k p. Inr [[Graphics ''DD1750'']]), can_open_wb = (\<lambda>p. True)\<rparr> Map.empty
      [] ''blank.pdf'' ''out.pdf'' None = (Inr (''out.pdf'', 0), [''out.pdf'' \<mapsto> doc]) \<and> length doc = 1)"
  using
    page_count [of "replicate 19 \<lparr>line_no = 1, description = ''BOLT'', nsn = [],
         unit_of_issue = ''EA'', initial_qty = 1, spares_qty = 0, total_qty = 1\<rparr>"
      "\<lparr>read_pdf = (\<lambda>k p. Inr [[Graphics ''DD1750'']]), can_open_wb = (\<lambda>p. True)\<rparr>"
      "''blank.pdf''" "''out.pdf''" Map.empty None]
    page_count [of "replicate 18 \<lparr>line_no = 1, description = ''BOLT'', nsn = [],
         unit_of_issue = ''EA'', initial_qty = 1, spares_qty = 0, total_qty = 1\<rparr>"
      "\<lparr>read_pdf = (\<lambda>k p. Inr [[Graphics ''DD1750'']]), can_open_wb = (\<lambda>p. True)\<rparr>"
      "''blank.pdf''" "''out.pdf''" Map.empty None]
    page_count [of "[]"
      "\<lparr>read_pdf = (\<lambda>k p. Inr [[Graphics ''DD1750'']]), can_open_wb = (\<lambda>p. True)\<rparr>"
      "''blank.pdf''" "''out.pdf''" Map.empty None]
  by (simp add: numeral_2_eq_2)

text \<open>
  C2. In a successful run, page \<open>p\<close> of the written document carries the rows of the
  contiguous slice of at most 18 items that starts at index \<open>18 * p\<close>, row \<open>i\<close> of the
  page being the \<open>i\<close>-th item of the slice; there are \<open>\<lceil>N / 18\<rceil>\<close> such pages, the slices
  concatenated in page order are the item list itself, and their lengths add up to the
  number of items. So every item is drawn once, on one page, in the original order.
\<close>

theorem pagination_partitions:
  assumes "\<forall>p < max 1 (nat \<lceil>real (length items) / 18\<rceil>).
             read_pdf env p template_path = Inr (tpl p) \<and> tpl p \<noteq> []"
    and "can_open_wb env output_path"
  shows "generate_dd1750 env fs items template_path output_path header =
     (Inr (output_path, length items),
      fs(output_path \<mapsto>
         (if items = [] then [tpl 0 ! 0]
          else map (\<lambda>p. tpl p ! 0 @ map Text 
                (code (compose_overlay header p (nat \<lceil>real (length items) / 18\<rceil>) []) @
                 concat (map (\<lambda>(i, item).
        [\<lparr>op_align = Centred, op_x = (X_BOX_L + X_BOX_R) / 2,
          op_y = (616 - 5) - real i * ROW_H - 7,
          op_text = str (line_no item), op_font = ''Helvetica'', op_size = 8\<rparr>,
         \<lparr>op_align = Left, op_x = X_CONTENT_L + 3,
          op_y = (616 - 5) - real i * ROW_H - 7,
          op_text = take 50 (description item), op_font = ''Helvetica'', op_size = 7\<rparr>] @
        (if nsn item \<noteq> []
         then [\<lparr>op_align = Left, op_x = X_CONTENT_L + 3,
                 op_y = (616 - 5) - real i * ROW_H - 17,
                 op_text = ''NSN: '' @ nsn item, op_font = ''Helvetica'', op_size = 6\<rparr>]
         else []) @
        [\<lparr>op_align = Centred, op_x = (X_UOI_L + X_UOI_R) / 2,
          op_y = (616 - 5) - real i * ROW_H - 7,
          op_text = unit_of_issue item, op_font = ''Helvetica'', op_size = 8\<rparr>,
         \<lparr>op_align = Centred, op_x = (X_INIT_L + X_INIT_R) / 2,
          op_y = (616 - 5) - real i * ROW_H - 7,
          op_text = str (initial_qty item), op_font = ''Helvetica'', op_size = 8\<rparr>,
         \<lparr>op_align = Centred, op_x = (X_SPARES_L + X_SPARES_R) / 2,
          op_y = (616 - 5) - real i * ROW_H - 7,
          op_text = str (spares_qty item), op_font = ''Helvetica'', op_size = 8\<rparr>,
         \<lparr>op_align = Centred, op_x = (X_TOTAL_L + X_TOTAL_R) / 2,
          op_y = (616 - 5) - real i * ROW_H - 7,
          op_text = str (total_qty item), op_font = ''Helvetica'', op_size = 8\<rparr>])
                   (enumerate 0 (take 18 (drop (18 * p) items))))))
                 [0..<nat \<lceil>real (length items) / 18\<rceil>]))) \<and>
   concat (map (\<lambda>p. take 18 (drop (18 * p) items)) [0..<nat \<lceil>real (length items) / 18\<rceil>]) = items \<and>
   sum_list (map (\<lambda>p. length (take 18 (drop (18 * p) items))) [0..<nat \<lceil>real (length items) / 18\<rceil>])
     = length items"
proof -
  have rows: "\<And>p. code (compose_overlay header p (nat \<lceil>real (length items) / 18\<rceil>) (page_items_of items p)) =
      (code (compose_overlay header p (nat \<lceil>real (length items) / 18\<rceil>) []) @
                 concat (map (\<lambda>(i, item).
        [\<lparr>op_align = Centred, op_x = (X_BOX_L + X_BOX_R) / 2,
          op_y = (616 - 5) - real i * ROW_H - 7,
          op_text = str (line_no item), op_font = ''Helvetica'', op_size = 8\<rparr>,
         \<lparr>op_align = Left, op_x = X_CONTENT_L + 3,
          op_y = (616 - 5) - real i * ROW_H - 7,
          op_text = take 50 (description item), op_font = ''Helvetica'', op_size = 7\<rparr>] @
        (if nsn item \<noteq> []
         then [\<lparr>op_align = Left, op_x = X_CONTENT_L + 3,
                 op_y = (616 - 5) - real i * ROW_H - 17,
                 op_text = ''NSN: '' @ nsn item, op_font = ''Helvetica'', op_size = 6\<rparr>]
         else []) @
        [\<lparr>op_align = Centred, op_x = (X_UOI_L + X_UOI_R) / 2,
          op_y = (616 - 5) - real i * ROW_H - 7,
          op_text = unit_of_issue item, op_font = ''Helvetica'', op_size = 8\<rparr>,
         \<lparr>op_align = Centred, op_x = (X_INIT_L + X_INIT_R) / 2,
          op_y = (616 - 5) - real i * ROW_H - 7,
          op_text = str (initial_qty item), op_font = ''Helvetica'', op_size = 8\<rparr>,
         \<lparr>op_align = Centred, op_x = (X_SPARES_L + X_SPARES_R) / 2,
          op_y = (616 - 5) - real i * ROW_H - 7,
          op_text = str (spares_qty item), op_font = ''Helvetica'', op_size = 8\<rparr>,
         \<lparr>op_align = Centred, op_x = (X_TOTAL_L + X_TOTAL_R) / 2,
          op_y = (616 - 5) - real i * ROW_H - 7,
          op_text = str (total_qty item), op_font = ''Helvetica'', op_size = 8\<rparr>])
                   (enumerate 0 (take 18 (drop (18 * p) items)))))"
    by (simp add: page_items_of_eq18
        compose_overlay_code [of header _ _ "take 18 (drop _ items)"]
        draw_row_code new_canvas_def Y_TABLE_TOP_LINE_def truncate_eq_take
        cong del: if_weak_cong)
  have doc: "generate_dd1750 env fs items template_path output_path header =
     (Inr (output_path, length items),
      fs(output_path \<mapsto>
         (if items = [] then [tpl 0 ! 0]
          else map (\<lambda>p. tpl p ! 0 @ map Text 
                (code (compose_overlay header p (nat \<lceil>real (length items) / 18\<rceil>) []) @
                 concat (map (\<lambda>(i, item).
        [\<lparr>op_align = Centred, op_x = (X_BOX_L + X_BOX_R) / 2,
          op_y = (616 - 5) - real i * ROW_H - 7,
          op_text = str (line_no item), op_font = ''Helvetica'', op_size = 8\<rparr>,
         \<lparr>op_align = Left, op_x = X_CONTENT_L + 3,
          op_y = (616 - 5) - real i * ROW_H - 7,
          op_text = take 50 (description item), op_font = ''Helvetica'', op_size = 7\<rparr>] @
        (if nsn item \<noteq> []
         then [\<lparr>op_align = Left, op_x = X_CONTENT_L + 3,
                 op_y = (616 - 5) - real i * ROW_H - 17,
                 op_text = ''NSN: '' @ nsn item, op_font = ''Helvetica'', op_size = 6\<rparr>]
         else []) @
        [\<lparr>op_align = Centred, op_x = (X_UOI_L + X_UOI_R) / 2,
          op_y = (616 - 5) - real i * ROW_H - 7,
          op_text = unit_of_issue item, op_font = ''Helvetica'', op_size = 8\<rparr>,
         \<lparr>op_align = Centred, op_x = (X_INIT_L + X_INIT_R) / 2,
          op_y = (616 - 5) - real i * ROW_H - 7,
          op_text = str (initial_qty item), op_font = ''Helvetica'', op_size = 8\<rparr>,
         \<lparr>op_align = Centred, op_x = (X_SPARES_L + X_SPARES_R) / 2,
          op_y = (616 - 5) - real i * ROW_H - 7,
          op_text = str (spares_qty item), op_font = ''Helvetica'', op_size = 8\<rparr>,
         \<lparr>op_align = Centred, op_x = (X_TOTAL_L + X_TOTAL_R) / 2,
          op_y = (616 - 5) - real i * ROW_H - 7,
          op_text = str (total_qty item), op_font = ''Helvetica'', op_size = 8\<rparr>])
                   (enumerate 0 (take 18 (drop (18 * p) items))))))
                 [0..<nat \<lceil>real (length items) / 18\<rceil>])))"
    using generate_dd1750_document [OF assms, of fs header] by (simp only: rows)
  have c: "concat (map (\<lambda>p. take 18 (drop (18 * p) items)) [0..<nat \<lceil>real (length items) / 18\<rceil>]) = items"
    by (rule pagination18)
  have "length (concat (map (\<lambda>p. take 18 (drop (18 * p) items)) [0..<nat \<lceil>real (length items) / 18\<rceil>]))
      = sum_list (map (\<lambda>p. length (take 18 (drop (18 * p) items))) [0..<nat \<lceil>real (length items) / 18\<rceil>])"
    by (simp only: length_concat map_map comp_def)
  with c have s: "sum_list (map (\<lambda>p. length (take 18 (drop (18 * p) items))) [0..<nat \<lceil>real (length items) / 18\<rceil>])
      = length items"
    by simp
  show ?thesis by (rule conjI [OF doc conjI [OF c s]])
qed

text \<open>
  Twenty numbered items: the second page holds items 19 and 20 in rows 0 and 1, and the
  two slices together are the twenty items.
\<close>

theorem pagination_partitions_witness:
  "fst (generate_dd1750
      \<lparr>read_pdf = (\<lambda>k p. Inr [[Graphics ''DD1750'']]), can_open_wb = (\<lambda>p. True)\<rparr> Map.empty
      (map (\<lambda>k. \<lparr>line_no = int k, description = ''WASHER'', nsn = [],
         unit_of_issue = ''EA'', initial_qty = 2, spares_qty = 0, total_qty = 2\<rparr>) [1..<21])
      ''blank.pdf'' ''out.pdf'' None) = Inr (''out.pdf'', 20) \<and>
   map_option length (snd (generate_dd1750
      \<lparr>read_pdf = (\<lambda>k p. Inr [[Graphics ''DD1750'']]), can_open_wb = (\<lambda>p. True)\<rparr> Map.empty
      (map (\<lambda>k. \<lparr>line_no = int k, description = ''WASHER'', nsn = [],
         unit_of_issue = ''EA'', initial_qty = 2, spares_qty = 0, total_qty = 2\<rparr>) [1..<21])
      ''blank.pdf'' ''out.pdf'' None) ''out.pdf'') = Some 2 \<and>
   map_option (\<lambda>doc. doc ! 1) (snd (generate_dd1750
      \<lparr>read_pdf = (\<lambda>k p. Inr [[Graphics ''DD1750'']]), can_open_wb = (\<lambda>p. True)\<rparr> Map.empty
      (map (\<lambda>k. \<lparr>line_no = int k, description = ''WASHER'', nsn = [],
         unit_of_issue = ''EA'', initial_qty = 2, spares_qty = 0, total_qty = 2\<rparr>) [1..<21])
      ''blank.pdf'' ''out.pdf'' None) ''out.pdf'') =
     Some [Graphics ''DD1750'',
         Text \<lparr>op_align = Left, op_x = 500, op_y = 660, op_text = ''2'',
            op_font = ''Helvetica'', op_size = 10\<rparr>,
         Text \<lparr>op_align = Left, op_x = 545, op_y = 660, op_text = ''2'',
            op_font = ''Helvetica'', op_size = 10\<rparr>,
         Text \<lparr>op_align = Centred, op_x = 66, op_y = 604, op_text = ''19'',
            op_font = ''Helvetica'', op_size = 8\<rparr>,
         Text \<lparr>op_align = Left, op_x = 91, op_y = 604, op_text = ''WASHER'',
            op_font = ''Helvetica'', op_size = 7\<rparr>,
         Text \<lparr>op_align = Centred, op_x = 386.75, op_y = 604, op_text = ''EA'',
            op_font = ''Helvetica'', op_size = 8\<rparr>,
         Text \<lparr>op_align = Centred, op_x = 431, op_y = 604, op_text = ''2'',
            op_font = ''Helvetica'', op_size = 8\<rparr>,
         Text \<lparr>op_align = Centred, op_x = 484, op_y = 604, op_text = ''0'',
            op_font = ''Helvetica'', op_size = 8\<rparr>,
         Text \<lparr>op_align = Centred, op_x = 540.25, op_y = 604, op_text = ''2'',
            op_font = ''Helvetica'', op_size = 8\<rparr>,
         Text \<lparr>op_align = Centred, op_x = 66, op_y = 574.75, op_text = ''20'',
            op_font = ''Helvetica'', op_size = 8\<rparr>,
         Text \<lparr>op_align = Left, op_x = 91, op_y = 574.75, op_text = ''WASHER'',
            op_font = ''Helvetica'', op_size = 7\<rparr>,
         Text \<lparr>op_align = Centred, op_x = 386.75, op_y = 574.75, op_text = ''EA'',
            op_font = ''Helvetica'', op_size = 8\<rparr>,
         Text \<lparr>op_align = Centred, op_x = 431, op_y = 574.75, op_text = ''2'',
            op_font = ''Helvetica'', op_size = 8\<rparr>,
         Text \<lparr>op_align = Centred, op_x = 484, op_y = 574.75, op_text = ''0'',
            op_font = ''Helvetica'', op_size = 8\<rparr>,
         Text \<lparr>op_align = Centred, op_x = 540.25, op_y = 574.75, op_text = ''2'',
            op_font = ''Helvetica'', op_size = 8\<rparr>]"
  using pagination_partitions [of "map (\<lambda>k. \<lparr>line_no = int k, description = ''WASHER'', nsn = [],
         unit_of_issue = ''EA'', initial_qty = 2, spares_qty = 0, total_qty = 2\<rparr>) [1..<21]" "\<lparr>read_pdf = (\<lambda>k p. Inr [[Graphics ''DD1750'']]), can_open_wb = (\<lambda>p. True)\<rparr>" "''blank.pdf''"
      "\<lambda>p. [[Graphics ''DD1750'']]" "''out.pdf''" Map.empty None, THEN conjunct1]
  by (simp add: draw_row_code new_canvas_def ROW_H_eq column_defs Y_TABLE_TOP_LINE_def
        str_eval upt_rec compose_overlay_no_header)

text \<open>
  C3. For the empty item list the generator writes the one-page document made of the
  template's first page as it is, whatever header is passed, and reports \<open>0\<close> items.
\<close>

theorem empty_list_gives_template:
  assumes "read_pdf env 0 template_path = Inr tpl" and "tpl \<noteq> []"
    and "can_open_wb env output_path"
  shows "generate_dd1750 env fs [] template_path output_path header =
           (Inr (output_path, 0), fs(output_path \<mapsto> [tpl ! 0]))"
  using assms by (rule generate_dd1750_empty)

text \<open>A full header is passed, and the written page holds the template's content only.\<close>

theorem empty_list_gives_template_witness:
  "generate_dd1750
      \<lparr>read_pdf = (\<lambda>k p. Inr [[Graphics ''DD1750'']]), can_open_wb = (\<lambda>p. True)\<rparr> Map.empty
      [] ''blank.pdf'' ''out.pdf''
      (Some \<lparr>packed_by = ''SGT DOE'', no_boxes = ''2'', requisition_no = ''R1'', order_no = ''O1'',
         end_item = ''TRUCK'', date = ''2024-01-01'', certifier_name = ''J DOE'',
         certifier_title = ''CPT''\<rparr>) =
    (Inr (''out.pdf'', 0), [''out.pdf'' \<mapsto> [[Graphics ''DD1750'']]])"
  using empty_list_gives_template [of
      "\<lparr>read_pdf = (\<lambda>k p. Inr [[Graphics ''DD1750'']]), can_open_wb = (\<lambda>p. True)\<rparr>"
      "''blank.pdf''" "[[Graphics ''DD1750'']]" "''out.pdf''" Map.empty
      "Some \<lparr>packed_by = ''SGT DOE'', no_boxes = ''2'', requisition_no = ''R1'', order_no = ''O1'',
         end_item = ''TRUCK'', date = ''2024-01-01'', certifier_name = ''J DOE'',
         certifier_title = ''CPT''\<rparr>"]
  by simp

text \<open>
  C8. If opening the template fails for some page of the run (or the template has no
  page), the generator returns an error and the files are as they were before the call.
\<close>

theorem failed_page_fails_whole:
  assumes "p < max 1 (nat \<lceil>real (length items) / 18\<rceil>)"
    and "read_pdf env p template_path = Inl err \<or> read_pdf env p template_path = Inr []"
  shows "\<exists>e. generate_dd1750 env fs items template_path output_path header = (Inl e, fs)"
proof (cases "items = []")
  case True
  with assms(1) have "p = 0" by simp
  with assms(2) True show ?thesis
    by (auto simp add: generate_dd1750_def pages_at_def)
next
  case False
  let ?n = "nat \<lceil>real (length items) / real ROWS_PER_PAGE\<rceil>"
  have n: "nat \<lceil>real (length items) / 18\<rceil> = ?n"
    by (simp add: ROWS_PER_PAGE_def)
  have "0 < ?n" using False by (rule total_pages_pos)
  with assms(1) have "p \<in> set [0..<?n]" unfolding n by simp
  from page_loop_fail [OF this assms(2)]
  obtain e where "page_loop env items template_path header ?n [0..<?n] [] = Inl e"
    by blast
  with False show ?thesis by (simp add: generate_dd1750_def Let_def)
qed

text \<open>
  The template cannot be opened for the second of two pages: the call fails and the
  earlier content of the output file is still there.
\<close>

theorem failed_page_fails_whole_witness:
  "\<exists>e. generate_dd1750
      \<lparr>read_pdf = (\<lambda>k p. if k = 1 then Inl FileNotFoundError else Inr [[Graphics ''DD1750'']]),
        can_open_wb = (\<lambda>p. True)\<rparr>
      [''out.pdf'' \<mapsto> [[Graphics ''old'']]]
      (replicate 19 \<lparr>line_no = 1, description = ''BOLT'', nsn = [],
         unit_of_issue = ''EA'', initial_qty = 1, spares_qty = 0, total_qty = 1\<rparr>)
      ''blank.pdf'' ''out.pdf'' None = (Inl e, [''out.pdf'' \<mapsto> [[Graphics ''old'']]])"
  using failed_page_fails_whole [of 1
      "replicate 19 \<lparr>line_no = 1, description = ''BOLT'', nsn = [],
         unit_of_issue = ''EA'', initial_qty = 1, spares_qty = 0, total_qty = 1\<rparr>"
      "\<lparr>read_pdf = (\<lambda>k p. if k = 1 then Inl FileNotFoundError else Inr [[Graphics ''DD1750'']]),
        can_open_wb = (\<lambda>p. True)\<rparr>"
      "''blank.pdf''" FileNotFoundError "[''out.pdf'' \<mapsto> [[Graphics ''old'']]]" "''out.pdf''" None]
  by simp

section \<open>Layout and drawing\<close>

text \<open>
  C7. The row height is \<open>(616.0 - 89.5) / 18 = 29.25\<close> exactly and exceeds \<open>17\<close>, so the
  NSN line at \<open>y - 17\<close> lies strictly above the next row's anchor \<open>y - ROW_H\<close>.
\<close>

theorem row_height:
  "ROW_H = (616.0 - 89.5) / 18 \<and> ROW_H = 29.25 \<and> 17 < ROW_H \<and> y - ROW_H < y - 17 \<and>
   (Y_TABLE_TOP_LINE - 5.0) - real (Suc i) * ROW_H
     < ((Y_TABLE_TOP_LINE - 5.0) - real i * ROW_H) - 17.0"
  by (simp add: ROW_H_eq algebra_simps)

text \<open>
  C4. In a successful run, the description drawn in each row of each page of the written
  document is the first 50 characters of the item's description when it is longer than
  50, and the description itself otherwise.
\<close>

theorem description_truncated:
  assumes "\<forall>p < max 1 (nat \<lceil>real (length items) / 18\<rceil>).
             read_pdf env p template_path = Inr (tpl p) \<and> tpl p \<noteq> []"
    and "can_open_wb env output_path"
  shows "generate_dd1750 env fs items template_path output_path header =
     (Inr (output_path, length items),
      fs(output_path \<mapsto>
         (if items = [] then [tpl 0 ! 0]
          else map (\<lambda>p. tpl p ! 0 @ map Text 
                (code (compose_overlay header p (nat \<lceil>real (length items) / 18\<rceil>) []) @
                 concat (map (\<lambda>(i, item).
        [\<lparr>op_align = Centred, op_x = (X_BOX_L + X_BOX_R) / 2,
          op_y = (616 - 5) - real i * ROW_H - 7,
          op_text = str (line_no item), op_font = ''Helvetica'', op_size = 8\<rparr>,
         \<lparr>op_align = Left, op_x = X_CONTENT_L + 3,
          op_y = (616 - 5) - real i * ROW_H - 7,
          op_text = (if 50 < length (description item) then take 50 (description item)
                     else description item),
          op_font = ''Helvetica'', op_size = 7\<rparr>] @
        (if nsn item \<noteq> []
         then [\<lparr>op_align = Left, op_x = X_CONTENT_L + 3,
                 op_y = (616 - 5) - real i * ROW_H - 17,
                 op_text = ''NSN: '' @ nsn item, op_font = ''Helvetica'', op_size = 6\<rparr>]
         else []) @
        [\<lparr>op_align = Centred, op_x = (X_UOI_L + X_UOI_R) / 2,
          op_y = (616 - 5) - real i * ROW_H - 7,
          op_text = unit_of_issue item, op_font = ''Helvetica'', op_size = 8\<rparr>,
         \<lparr>op_align = Centred, op_x = (X_INIT_L + X_INIT_R) / 2,
          op_y = (616 - 5) - real i * ROW_H - 7,
          op_text = str (initial_qty item), op_font = ''Helvetica'', op_size = 8\<rparr>,
         \<lparr>op_align = Centred, op_x = (X_SPARES_L + X_SPARES_R) / 2,
          op_y = (616 - 5) - real i * ROW_H - 7,
          op_text = str (spares_qty item), op_font = ''Helvetica'', op_size = 8\<rparr>,
         \<lparr>op_align = Centred, op_x = (X_TOTAL_L + X_TOTAL_R) / 2,
          op_y = (616 - 5) - real i * ROW_H - 7,
          op_text = str (total_qty item), op_font = ''Helvetica'', op_size = 8\<rparr>])
                   (enumerate 0 (take 18 (drop (18 * p) items))))))
                 [0..<nat \<lceil>real (length items) / 18\<rceil>])))"
proof -
  have rows: "\<And>p. code (compose_overlay header p (nat \<lceil>real (length items) / 18\<rceil>) (page_items_of items p)) =
      (code (compose_overlay header p (nat \<lceil>real (length items) / 18\<rceil>) []) @
                 concat (map (\<lambda>(i, item).
        [\<lparr>op_align = Centred, op_x = (X_BOX_L + X_BOX_R) / 2,
          op_y = (616 - 5) - real i * ROW_H - 7,
          op_text = str (line_no item), op_font = ''Helvetica'', op_size = 8\<rparr>,
         \<lparr>op_align = Left, op_x = X_CONTENT_L + 3,
          op_y = (616 - 5) - real i * ROW_H - 7,
          op_text = (if 50 < length (description item) then take 50 (description item)
                     else description item),
          op_font = ''Helvetica'', op_size = 7\<rparr>] @
        (if nsn item \<noteq> []
         then [\<lparr>op_align = Left, op_x = X_CONTENT_L + 3,
                 op_y = (616 - 5) - real i * ROW_H - 17,
                 op_text = ''NSN: '' @ nsn item, op_font = ''Helvetica'', op_size = 6\<rparr>]
         else []) @
        [\<lparr>op_align = Centred, op_x = (X_UOI_L + X_UOI_R) / 2,
          op_y = (616 - 5) - real i * ROW_H - 7,
          op_text = unit_of_issue item, op_font = ''Helvetica'', op_size = 8\<rparr>,
         \<lparr>op_align = Centred, op_x = (X_INIT_L + X_INIT_R) / 2,
          op_y = (616 - 5) - real i * ROW_H - 7,
          op_text = str (initial_qty item), op_font = ''Helvetica'', op_size = 8\<rparr>,
         \<lparr>op_align = Centred, op_x = (X_SPARES_L + X_SPARES_R) / 2,
          op_y = (616 - 5) - real i * ROW_H - 7,
          op_text = str (spares_qty item), op_font = ''Helvetica'', op_size = 8\<rparr>,
         \<lparr>op_align = Centred, op_x = (X_TOTAL_L + X_TOTAL_R) / 2,
          op_y = (616 - 5) - real i * ROW_H - 7,
          op_text = str (total_qty item), op_font = ''Helvetica'', op_size = 8\<rparr>])
                   (enumerate 0 (take 18 (drop (18 * p) items)))))"
    by (simp add: page_items_of_eq18
        compose_overlay_code [of header _ _ "take 18 (drop _ items)"]
        draw_row_code new_canvas_def Y_TABLE_TOP_LINE_def truncate_eq_take
        cong del: if_weak_cong)
  have doc: "generate_dd1750 env fs items template_path output_path header =
     (Inr (output_path, length items),
      fs(output_path \<mapsto>
         (if items = [] then [tpl 0 ! 0]
          else map (\<lambda>p. tpl p ! 0 @ map Text 
                (code (compose_overlay header p (nat \<lceil>real (length items) / 18\<rceil>) []) @
                 concat (map (\<lambda>(i, item).
        [\<lparr>op_align = Centred, op_x = (X_BOX_L + X_BOX_R) / 2,
          op_y = (616 - 5) - real i * ROW_H - 7,
          op_text = str (line_no item), op_font = ''Helvetica'', op_size = 8\<rparr>,
         \<lparr>op_align = Left, op_x = X_CONTENT_L + 3,
          op_y = (616 - 5) - real i * ROW_H - 7,
          op_text = (if 50 < length (description item) then take 50 (description item)
                     else description item),
          op_font = ''Helvetica'', op_size = 7\<rparr>] @
        (if nsn item \<noteq> []
         then [\<lparr>op_align = Left, op_x = X_CONTENT_L + 3,
                 op_y = (616 - 5) - real i * ROW_H - 17,
                 op_text = ''NSN: '' @ nsn item, op_font = ''Helvetica'', op_size = 6\<rparr>]
         else []) @
        [\<lparr>op_align = Centred, op_x = (X_UOI_L + X_UOI_R) / 2,
          op_y = (616 - 5) - real i * ROW_H - 7,
          op_text = unit_of_issue item, op_font = ''Helvetica'', op_size = 8\<rparr>,
         \<lparr>op_align = Centred, op_x = (X_INIT_L + X_INIT_R) / 2,
          op_y = (616 - 5) - real i * ROW_H - 7,
          op_text = str (initial_qty item), op_font = ''Helvetica'', op_size = 8\<rparr>,
         \<lparr>op_align = Centred, op_x = (X_SPARES_L + X_SPARES_R) / 2,
          op_y = (616 - 5) - real i * ROW_H - 7,
          op_text = str (spares_qty item), op_font = ''Helvetica'', op_size = 8\<rparr>,
         \<lparr>op_align = Centred, op_x = (X_TOTAL_L + X_TOTAL_R) / 2,
          op_y = (616 - 5) - real i * ROW_H - 7,
          op_text = str (total_qty item), op_font = ''Helvetica'', op_size = 8\<rparr>])
                   (enumerate 0 (take 18 (drop (18 * p) items))))))
                 [0..<nat \<lceil>real (length items) / 18\<rceil>])))"
    using generate_dd1750_document [OF assms, of fs header] by (simp only: rows)
  show ?thesis by (rule doc)
qed

text \<open>
  On the written page a description of 51 characters has lost its last one, and one of
  50 characters is drawn as it is.
\<close>

theorem description_truncated_witness:
  "generate_dd1750
      \<lparr>read_pdf = (\<lambda>k p. Inr [[Graphics ''DD1750'']]), can_open_wb = (\<lambda>p. True)\<rparr> Map.empty
      [\<lparr>line_no = 1, description = ''01234567890123456789012345678901234567890123456789X'',
         nsn = [], unit_of_issue = ''EA'', initial_qty = 1, spares_qty = 0, total_qty = 1\<rparr>,
       \<lparr>line_no = 2, description = ''01234567890123456789012345678901234567890123456789'',
         nsn = [], unit_of_issue = ''EA'', initial_qty = 1, spares_qty = 0, total_qty = 1\<rparr>]
      ''blank.pdf'' ''out.pdf'' None =
     (Inr (''out.pdf'', 2), [''out.pdf'' \<mapsto> [[Graphics ''DD1750'',
         Text \<lparr>op_align = Left, op_x = 500, op_y = 660, op_text = ''1'',
            op_font = ''Helvetica'', op_size = 10\<rparr>,
         Text \<lparr>op_align = Left, op_x = 545, op_y = 660, op_text = ''1'',
            op_font = ''Helvetica'', op_size = 10\<rparr>,
         Text \<lparr>op_align = Centred, op_x = 66, op_y = 604, op_text = ''1'',
            op_font = ''Helvetica'', op_size = 8\<rparr>,
         Text \<lparr>op_align = Left, op_x = 91, op_y = 604, op_text = ''01234567890123456789012345678901234567890123456789'',
            op_font = ''Helvetica'', op_size = 7\<rparr>,
         Text \<lparr>op_align = Centred, op_x = 386.75, op_y = 604, op_text = ''EA'',
            op_font = ''Helvetica'', op_size = 8\<rparr>,
         Text \<lparr>op_align = Centred, op_x = 431, op_y = 604, op_text = ''1'',
            op_font = ''Helvetica'', op_size = 8\<rparr>,
         Text \<lparr>op_align = Centred, op_x = 484, op_y = 604, op_text = ''0'',
            op_font = ''Helvetica'', op_size = 8\<rparr>,
         Text \<lparr>op_align = Centred, op_x = 540.25, op_y = 604, op_text = ''1'',
            op_font = ''Helvetica'', op_size = 8\<rparr>,
         Text \<lparr>op_align = Centred, op_x = 66, op_y = 574.75, op_text = ''2'',
            op_font = ''Helvetica'', op_size = 8\<rparr>,
         Text \<lparr>op_align = Left, op_x = 91, op_y = 574.75, op_text = ''01234567890123456789012345678901234567890123456789'',
            op_font = ''Helvetica'', op_size = 7\<rparr>,
         Text \<lparr>op_align = Centred, op_x = 386.75, op_y = 574.75, op_text = ''EA'',
            op_font = ''Helvetica'', op_size = 8\<rparr>,
         Text \<lparr>op_align = Centred, op_x = 431, op_y = 574.75, op_text = ''1'',
            op_font = ''Helvetica'', op_size = 8\<rparr>,
         Text \<lparr>op_align = Centred, op_x = 484, op_y = 574.75, op_text = ''0'',
            op_font = ''Helvetica'', op_size = 8\<rparr>,
         Text \<lparr>op_align = Centred, op_x = 540.25, op_y = 574.75, op_text = ''1'',
            op_font = ''Helvetica'', op_size = 8\<rparr>]]])"
  using description_truncated [of "[\<lparr>line_no = 1, description = ''01234567890123456789012345678901234567890123456789X'',
         nsn = [], unit_of_issue = ''EA'', initial_qty = 1, spares_qty = 0, total_qty = 1\<rparr>,
       \<lparr>line_no = 2, description = ''01234567890123456789012345678901234567890123456789'',
         nsn = [], unit_of_issue = ''EA'', initial_qty = 1, spares_qty = 0, total_qty = 1\<rparr>]" "\<lparr>read_pdf = (\<lambda>k p. Inr [[Graphics ''DD1750'']]), can_open_wb = (\<lambda>p. True)\<rparr>" "''blank.pdf''"
      "\<lambda>p. [[Graphics ''DD1750'']]" "''out.pdf''" Map.empty None,
      unfolded total_pages_div18]
  by (simp add: draw_row_code new_canvas_def ROW_H_eq column_defs Y_TABLE_TOP_LINE_def
        str_eval compose_overlay_no_header)

text \<open>
  C5. In a successful run on a non-empty list, page \<open>p\<close> of the written document is the
  template page followed by the header draws and then, for each row \<open>i\<close> (counted from 0
  within the page) with anchor \<open>y = (616 - 5) - i * ROW_H\<close>: the line number centred in
  the box column at \<open>y - 7\<close>, the description left-aligned 3 units right of the content
  column's left edge at \<open>y - 7\<close>, the text \<open>NSN: \<close> followed by the NSN at \<open>y - 17\<close>
  exactly when the NSN is non-empty, and unit of issue, initial, spares and total
  quantity centred in their columns at \<open>y - 7\<close>.
\<close>

theorem row_draws:
  assumes "items \<noteq> []"
    and "\<forall>p < nat \<lceil>real (length items) / 18\<rceil>.
           read_pdf env p template_path = Inr (tpl p) \<and> tpl p \<noteq> []"
    and "can_open_wb env output_path"
  shows "generate_dd1750 env fs items template_path output_path header =
     (Inr (output_path, length items),
      fs(output_path \<mapsto>
         map (\<lambda>p. tpl p ! 0 @ map Text
               (code (compose_overlay header p (nat \<lceil>real (length items) / 18\<rceil>) []) @
                concat (map (\<lambda>(i, item).
        [\<lparr>op_align = Centred, op_x = (X_BOX_L + X_BOX_R) / 2,
          op_y = (616 - 5) - real i * ROW_H - 7,
          op_text = str (line_no item), op_font = ''Helvetica'', op_size = 8\<rparr>,
         \<lparr>op_align = Left, op_x = X_CONTENT_L + 3,
          op_y = (616 - 5) - real i * ROW_H - 7,
          op_text = take 50 (description item), op_font = ''Helvetica'', op_size = 7\<rparr>] @
        (if nsn item \<noteq> []
         then [\<lparr>op_align = Left, op_x = X_CONTENT_L + 3,
                 op_y = (616 - 5) - real i * ROW_H - 17,
                 op_text = ''NSN: '' @ nsn item, op_font = ''Helvetica'', op_size = 6\<rparr>]
         else []) @
        [\<lparr>op_align = Centred, op_x = (X_UOI_L + X_UOI_R) / 2,
          op_y = (616 - 5) - real i * ROW_H - 7,
          op_text = unit_of_issue item, op_font = ''Helvetica'', op_size = 8\<rparr>,
         \<lparr>op_align = Centred, op_x = (X_INIT_L + X_INIT_R) / 2,
          op_y = (616 - 5) - real i * ROW_H - 7,
          op_text = str (initial_qty item), op_font = ''Helvetica'', op_size = 8\<rparr>,
         \<lparr>op_align = Centred, op_x = (X_SPARES_L + X_SPARES_R) / 2,
          op_y = (616 - 5) - real i * ROW_H - 7,
          op_text = str (spares_qty item), op_font = ''Helvetica'', op_size = 8\<rparr>,
         \<lparr>op_align = Centred, op_x = (X_TOTAL_L + X_TOTAL_R) / 2,
          op_y = (616 - 5) - real i * ROW_H - 7,
          op_text = str (total_qty item), op_font = ''Helvetica'', op_size = 8\<rparr>])
                  (enumerate 0 (page_items_of items p)))))
           [0..<nat \<lceil>real (length items) / 18\<rceil>]))"
proof -
  have "\<And>p. code (compose_overlay header p (nat \<lceil>real (length items) / 18\<rceil>) (page_items_of items p)) =
      code (compose_overlay header p (nat \<lceil>real (length items) / 18\<rceil>) []) @
      concat (map (\<lambda>(i, item).
        [\<lparr>op_align = Centred, op_x = (X_BOX_L + X_BOX_R) / 2,
          op_y = (616 - 5) - real i * ROW_H - 7,
          op_text = str (line_no item), op_font = ''Helvetica'', op_size = 8\<rparr>,
         \<lparr>op_align = Left, op_x = X_CONTENT_L + 3,
          op_y = (616 - 5) - real i * ROW_H - 7,
          op_text = take 50 (description item), op_font = ''Helvetica'', op_size = 7\<rparr>] @
        (if nsn item \<noteq> []
         then [\<lparr>op_align = Left, op_x = X_CONTENT_L + 3,
                 op_y = (616 - 5) - real i * ROW_H - 17,
                 op_text = ''NSN: '' @ nsn item, op_font = ''Helvetica'', op_size = 6\<rparr>]
         else []) @
        [\<lparr>op_align = Centred, op_x = (X_UOI_L + X_UOI_R) / 2,
          op_y = (616 - 5) - real i * ROW_H - 7,
          op_text = unit_of_issue item, op_font = ''Helvetica'', op_size = 8\<rparr>,
         \<lparr>op_align = Centred, op_x = (X_INIT_L + X_INIT_R) / 2,
          op_y = (616 - 5) - real i * ROW_H - 7,
          op_text = str (initial_qty item), op_font = ''Helvetica'', op_size = 8\<rparr>,
         \<lparr>op_align = Centred, op_x = (X_SPARES_L + X_SPARES_R) / 2,
          op_y = (616 - 5) - real i * ROW_H - 7,
          op_text = str (spares_qty item), op_font = ''Helvetica'', op_size = 8\<rparr>,
         \<lparr>op_align = Centred, op_x = (X_TOTAL_L + X_TOTAL_R) / 2,
          op_y = (616 - 5) - real i * ROW_H - 7,
          op_text = str (total_qty item), op_font = ''Helvetica'', op_size = 8\<rparr>])
        (enumerate 0 (page_items_of items p)))"
    by (simp add: compose_overlay_code [of header _ _ "page_items_of items _"]
        draw_row_code new_canvas_def Y_TABLE_TOP_LINE_def cong del: if_weak_cong)
  with generate_dd1750_pages18 [OF assms, of fs header] show ?thesis
    by (simp only:)
qed

text \<open>Nineteen items: the second page holds item 19 in row 0.\<close>

theorem row_draws_witness:
  "fst (generate_dd1750
      \<lparr>read_pdf = (\<lambda>k p. Inr [[Graphics ''DD1750'']]), can_open_wb = (\<lambda>p. True)\<rparr> Map.empty
      (map (\<lambda>k. \<lparr>line_no = int k, description = ''BOLT'', nsn = ''5305'',
         unit_of_issue = ''EA'', initial_qty = 4, spares_qty = 1, total_qty = 5\<rparr>) [1..<20])
      ''blank.pdf'' ''out.pdf'' None) = Inr (''out.pdf'', 19) \<and>
   map_option length (snd (generate_dd1750
      \<lparr>read_pdf = (\<lambda>k p. Inr [[Graphics ''DD1750'']]), can_open_wb = (\<lambda>p. True)\<rparr> Map.empty
      (map (\<lambda>k. \<lparr>line_no = int k, description = ''BOLT'', nsn = ''5305'',
         unit_of_issue = ''EA'', initial_qty = 4, spares_qty = 1, total_qty = 5\<rparr>) [1..<20])
      ''blank.pdf'' ''out.pdf'' None) ''out.pdf'') = Some 2 \<and>
   map_option (\<lambda>doc. doc ! 1) (snd (generate_dd1750
      \<lparr>read_pdf = (\<lambda>k p. Inr [[Graphics ''DD1750'']]), can_open_wb = (\<lambda>p. True)\<rparr> Map.empty
      (map (\<lambda>k. \<lparr>line_no = int k, description = ''BOLT'', nsn = ''5305'',
         unit_of_issue = ''EA'', initial_qty = 4, spares_qty = 1, total_qty = 5\<rparr>) [1..<20])
      ''blank.pdf'' ''out.pdf'' None) ''out.pdf'') =
     Some [Graphics ''DD1750'',
         Text \<lparr>op_align = Left, op_x = 500, op_y = 660, op_text = ''2'',
            op_font = ''Helvetica'', op_size = 10\<rparr>,
         Text \<lparr>op_align = Left, op_x = 545, op_y = 660, op_text = ''2'',
            op_font = ''Helvetica'', op_size = 10\<rparr>,
         Text \<lparr>op_align = Centred, op_x = 66, op_y = 604, op_text = ''19'',
            op_font = ''Helvetica'', op_size = 8\<rparr>,
         Text \<lparr>op_align = Left, op_x = 91, op_y = 604, op_text = ''BOLT'',
            op_font = ''Helvetica'', op_size = 7\<rparr>,
         Text \<lparr>op_align = Left, op_x = 91, op_y = 594, op_text = ''NSN: 5305'',
            op_font = ''Helvetica'', op_size = 6\<rparr>,
         Text \<lparr>op_align = Centred, op_x = 386.75, op_y = 604, op_text = ''EA'',
            op_font = ''Helvetica'', op_size = 8\<rparr>,
         Text \<lparr>op_align = Centred, op_x = 431, op_y = 604, op_text = ''4'',
            op_font = ''Helvetica'', op_size = 8\<rparr>,
         Text \<lparr>op_align = Centred, op_x = 484, op_y = 604, op_text = ''1'',
            op_font = ''Helvetica'', op_size = 8\<rparr>,
         Text \<lparr>op_align = Centred, op_x = 540.25, op_y = 604, op_text = ''5'',
            op_font = ''Helvetica'', op_size = 8\<rparr>]"
  using row_draws [of "map (\<lambda>k. \<lparr>line_no = int k, description = ''BOLT'', nsn = ''5305'',
         unit_of_issue = ''EA'', initial_qty = 4, spares_qty = 1, total_qty = 5\<rparr>) [1..<20]" "\<lparr>read_pdf = (\<lambda>k p. Inr [[Graphics ''DD1750'']]), can_open_wb = (\<lambda>p. True)\<rparr>" "''blank.pdf''" "\<lambda>p. [[Graphics ''DD1750'']]" "''out.pdf''" Map.empty None]
  by (simp add: page_items_of_def slice_def ROWS_PER_PAGE_def draw_row_code new_canvas_def
        ROW_H_eq column_defs Y_TABLE_TOP_LINE_def str_eval upt_rec compose_overlay_no_header)

text \<open>
  C6. In a successful run with a header on a non-empty list, every page \<open>p\<close> of the
  written document carries the same header draws at fixed coordinates: each non-empty
  field (the date only if non-empty, the end item cut to 60 characters), the page
  number \<open>p + 1\<close> and the total page count, and at the page bottom the certifier name
  and title, each only if non-empty.
\<close>

theorem header_on_every_page:
  assumes "items \<noteq> []"
    and "\<forall>p < nat \<lceil>real (length items) / 18\<rceil>.
           read_pdf env p template_path = Inr (tpl p) \<and> tpl p \<noteq> []"
    and "can_open_wb env output_path"
  shows "generate_dd1750 env fs items template_path output_path (Some h) =
     (Inr (output_path, length items),
      fs(output_path \<mapsto>
         map (\<lambda>p. tpl p ! 0 @ map Text
              (((if packed_by h \<noteq> []
      then [\<lparr>op_align = Left, op_x = 95, op_y = 735, op_text = packed_by h,
              op_font = ''Helvetica'', op_size = 10\<rparr>]
      else []) @
     (if no_boxes h \<noteq> []
      then [\<lparr>op_align = Left, op_x = 240, op_y = 735, op_text = no_boxes h,
              op_font = ''Helvetica'', op_size = 10\<rparr>]
      else []) @
     (if requisition_no h \<noteq> []
      then [\<lparr>op_align = Left, op_x = 370, op_y = 735, op_text = requisition_no h,
              op_font = ''Helvetica'', op_size = 10\<rparr>]
      else []) @
     (if order_no h \<noteq> []
      then [\<lparr>op_align = Left, op_x = 370, op_y = 710, op_text = order_no h,
              op_font = ''Helvetica'', op_size = 10\<rparr>]
      else []) @
     (if end_item h \<noteq> []
      then [\<lparr>op_align = Left, op_x = 95, op_y = 685, op_text = take 60 (end_item h),
              op_font = ''Helvetica'', op_size = 8\<rparr>]
      else []) @
     (if date h \<noteq> []
      then [\<lparr>op_align = Left, op_x = 500, op_y = 685, op_text = date h,
              op_font = ''Helvetica'', op_size = 10\<rparr>]
      else []) @
     [\<lparr>op_align = Left, op_x = 500, op_y = 660, op_text = str (int p + 1),
       op_font = ''Helvetica'', op_size = 10\<rparr>,
      \<lparr>op_align = Left, op_x = 545, op_y = 660, op_text = str (int (nat \<lceil>real (length items) / 18\<rceil>)),
       op_font = ''Helvetica'', op_size = 10\<rparr>] @
     (if certifier_name h \<noteq> []
      then [\<lparr>op_align = Left, op_x = 95, op_y = 55, op_text = certifier_name h,
              op_font = ''Helvetica'', op_size = 9\<rparr>]
      else []) @
     (if certifier_title h \<noteq> []
      then [\<lparr>op_align = Left, op_x = 280, op_y = 55, op_text = certifier_title h,
              op_font = ''Helvetica'', op_size = 9\<rparr>]
      else [])) @
               concat (map (\<lambda>(i, item). code (draw_row (Y_TABLE_TOP_LINE - 5) i item new_canvas))
                       (enumerate 0 (page_items_of items p)))))
           [0..<nat \<lceil>real (length items) / 18\<rceil>]))"
proof -
  have "\<And>p. code (compose_overlay (Some h) p (nat \<lceil>real (length items) / 18\<rceil>) (page_items_of items p)) =
      ((if packed_by h \<noteq> []
      then [\<lparr>op_align = Left, op_x = 95, op_y = 735, op_text = packed_by h,
              op_font = ''Helvetica'', op_size = 10\<rparr>]
      else []) @
     (if no_boxes h \<noteq> []
      then [\<lparr>op_align = Left, op_x = 240, op_y = 735, op_text = no_boxes h,
              op_font = ''Helvetica'', op_size = 10\<rparr>]
      else []) @
     (if requisition_no h \<noteq> []
      then [\<lparr>op_align = Left, op_x = 370, op_y = 735, op_text = requisition_no h,
              op_font = ''Helvetica'', op_size = 10\<rparr>]
      else []) @
     (if order_no h \<noteq> []
      then [\<lparr>op_align = Left, op_x = 370, op_y = 710, op_text = order_no h,
              op_font = ''Helvetica'', op_size = 10\<rparr>]
      else []) @
     (if end_item h \<noteq> []
      then [\<lparr>op_align = Left, op_x = 95, op_y = 685, op_text = take 60 (end_item h),
              op_font = ''Helvetica'', op_size = 8\<rparr>]
      else []) @
     (if date h \<noteq> []
      then [\<lparr>op_align = Left, op_x = 500, op_y = 685, op_text = date h,
              op_font = ''Helvetica'', op_size = 10\<rparr>]
      else []) @
     [\<lparr>op_align = Left, op_x = 500, op_y = 660, op_text = str (int p + 1),
       op_font = ''Helvetica'', op_size = 10\<rparr>,
      \<lparr>op_align = Left, op_x = 545, op_y = 660, op_text = str (int (nat \<lceil>real (length items) / 18\<rceil>)),
       op_font = ''Helvetica'', op_size = 10\<rparr>] @
     (if certifier_name h \<noteq> []
      then [\<lparr>op_align = Left, op_x = 95, op_y = 55, op_text = certifier_name h,
              op_font = ''Helvetica'', op_size = 9\<rparr>]
      else []) @
     (if certifier_title h \<noteq> []
      then [\<lparr>op_align = Left, op_x = 280, op_y = 55, op_text = certifier_title h,
              op_font = ''Helvetica'', op_size = 9\<rparr>]
      else [])) @
      concat (map (\<lambda>(i, item). code (draw_row (Y_TABLE_TOP_LINE - 5) i item new_canvas))
                       (enumerate 0 (page_items_of items p)))"
    by (simp only: compose_overlay_Some_code draw_header_code) (simp add: new_canvas_def)
  with generate_dd1750_pages18 [OF assms, of fs "Some h"] show ?thesis
    by (simp only:)
qed

text \<open>Nineteen items and a header with some empty fields: the second page.\<close>

theorem header_on_every_page_witness:
  "fst (generate_dd1750
      \<lparr>read_pdf = (\<lambda>k p. Inr [[Graphics ''DD1750'']]), can_open_wb = (\<lambda>p. True)\<rparr> Map.empty
      (map (\<lambda>k. \<lparr>line_no = int k, description = ''BOLT'', nsn = ''5305'',
         unit_of_issue = ''EA'', initial_qty = 4, spares_qty = 1, total_qty = 5\<rparr>) [1..<20])
      ''blank.pdf'' ''out.pdf'' (Some \<lparr>packed_by = ''SGT DOE'', no_boxes = [], requisition_no = ''R1'', order_no = [],
         end_item = ''TRUCK'', date = [], certifier_name = [], certifier_title = ''CPT''\<rparr>)) = Inr (''out.pdf'', 19) \<and>
   map_option length (snd (generate_dd1750
      \<lparr>read_pdf = (\<lambda>k p. Inr [[Graphics ''DD1750'']]), can_open_wb = (\<lambda>p. True)\<rparr> Map.empty
      (map (\<lambda>k. \<lparr>line_no = int k, description = ''BOLT'', nsn = ''5305'',
         unit_of_issue = ''EA'', initial_qty = 4, spares_qty = 1, total_qty = 5\<rparr>) [1..<20])
      ''blank.pdf'' ''out.pdf'' (Some \<lparr>packed_by = ''SGT DOE'', no_boxes = [], requisition_no = ''R1'', order_no = [],
         end_item = ''TRUCK'', date = [], certifier_name = [], certifier_title = ''CPT''\<rparr>)) ''out.pdf'') = Some 2 \<and>
   map_option (\<lambda>doc. doc ! 1) (snd (generate_dd1750
      \<lparr>read_pdf = (\<lambda>k p. Inr [[Graphics ''DD1750'']]), can_open_wb = (\<lambda>p. True)\<rparr> Map.empty
      (map (\<lambda>k. \<lparr>line_no = int k, description = ''BOLT'', nsn = ''5305'',
         unit_of_issue = ''EA'', initial_qty = 4, spares_qty = 1, total_qty = 5\<rparr>) [1..<20])
      ''blank.pdf'' ''out.pdf'' (Some \<lparr>packed_by = ''SGT DOE'', no_boxes = [], requisition_no = ''R1'', order_no = [],
         end_item = ''TRUCK'', date = [], certifier_name = [], certifier_title = ''CPT''\<rparr>)) ''out.pdf'') =
     Some [Graphics ''DD1750'',
         Text \<lparr>op_align = Left, op_x = 95, op_y = 735, op_text = ''SGT DOE'',
            op_font = ''Helvetica'', op_size = 10\<rparr>,
         Text \<lparr>op_align = Left, op_x = 370, op_y = 735, op_text = ''R1'',
            op_font = ''Helvetica'', op_size = 10\<rparr>,
         Text \<lparr>op_align = Left, op_x = 95, op_y = 685, op_text = ''TRUCK'',
            op_font = ''Helvetica'', op_size = 8\<rparr>,
         Text \<lparr>op_align = Left, op_x = 500, op_y = 660, op_text = ''2'',
            op_font = ''Helvetica'', op_size = 10\<rparr>,
         Text \<lparr>op_align = Left, op_x = 545, op_y = 660, op_text = ''2'',
            op_font = ''Helvetica'', op_size = 10\<rparr>,
         Text \<lparr>op_align = Left, op_x = 280, op_y = 55, op_text = ''CPT'',
            op_font = ''Helvetica'', op_size = 9\<rparr>,
         Text \<lparr>op_align = Centred, op_x = 66, op_y = 604, op_text = ''19'',
            op_font = ''Helvetica'', op_size = 8\<rparr>,
         Text \<lparr>op_align = Left, op_x = 91, op_y = 604, op_text = ''BOLT'',
            op_font = ''Helvetica'', op_size = 7\<rparr>,
         Text \<lparr>op_align = Left, op_x = 91, op_y = 594, op_text = ''NSN: 5305'',
            op_font = ''Helvetica'', op_size = 6\<rparr>,
         Text \<lparr>op_align = Centred, op_x = 386.75, op_y = 604, op_text = ''EA'',
            op_font = ''Helvetica'', op_size = 8\<rparr>,
         Text \<lparr>op_align = Centred, op_x = 431, op_y = 604, op_text = ''4'',
            op_font = ''Helvetica'', op_size = 8\<rparr>,
         Text \<lparr>op_align = Centred, op_x = 484, op_y = 604, op_text = ''1'',
            op_font = ''Helvetica'', op_size = 8\<rparr>,
         Text \<lparr>op_align = Centred, op_x = 540.25, op_y = 604, op_text = ''5'',
            op_font = ''Helvetica'', op_size = 8\<rparr>]"
  using header_on_every_page [of "map (\<lambda>k. \<lparr>line_no = int k, description = ''BOLT'', nsn = ''5305'',
         unit_of_issue = ''EA'', initial_qty = 4, spares_qty = 1, total_qty = 5\<rparr>) [1..<20]" "\<lparr>read_pdf = (\<lambda>k p. Inr [[Graphics ''DD1750'']]), can_open_wb = (\<lambda>p. True)\<rparr>" "''blank.pdf''" "\<lambda>p. [[Graphics ''DD1750'']]" "''out.pdf''" Map.empty "\<lparr>packed_by = ''SGT DOE'', no_boxes = [], requisition_no = ''R1'', order_no = [],
         end_item = ''TRUCK'', date = [], certifier_name = [], certifier_title = ''CPT''\<rparr>"]
  by (simp add: page_items_of_def slice_def ROWS_PER_PAGE_def draw_row_code new_canvas_def
        ROW_H_eq column_defs Y_TABLE_TOP_LINE_def str_eval upt_rec compose_overlay_no_header)

text \<open>
  C10. In a successful run without a header on a non-empty list, every page \<open>p\<close> of the
  written document has, before its rows, exactly the two draws of the page number
  \<open>p + 1\<close> and of the total page count; they are the only draws above the table's top
  line, and the same two draws (same coordinates, font and size) are among those made
  when a header is given.
\<close>

theorem page_numbers_without_header:
  assumes "items \<noteq> []"
    and "\<forall>p < nat \<lceil>real (length items) / 18\<rceil>.
           read_pdf env p template_path = Inr (tpl p) \<and> tpl p \<noteq> []"
    and "can_open_wb env output_path"
  shows "generate_dd1750 env fs items template_path output_path None =
     (Inr (output_path, length items),
      fs(output_path \<mapsto>
         map (\<lambda>p. tpl p ! 0 @ map Text
              ([\<lparr>op_align = Left, op_x = 500, op_y = 660, op_text = str (int p + 1),
                 op_font = ''Helvetica'', op_size = 10\<rparr>,
                \<lparr>op_align = Left, op_x = 545, op_y = 660,
                 op_text = str (int (nat \<lceil>real (length items) / 18\<rceil>)),
                 op_font = ''Helvetica'', op_size = 10\<rparr>] @
               concat (map (\<lambda>(i, item). code (draw_row (Y_TABLE_TOP_LINE - 5) i item new_canvas))
                       (enumerate 0 (page_items_of items p)))))
           [0..<nat \<lceil>real (length items) / 18\<rceil>])) \<and>
   (\<forall>p total_pages page_items h.
      filter (\<lambda>d. Y_TABLE_TOP_LINE < op_y d)
          (code (compose_overlay None p total_pages page_items)) =
        [\<lparr>op_align = Left, op_x = 500, op_y = 660, op_text = str (int p + 1),
          op_font = ''Helvetica'', op_size = 10\<rparr>,
         \<lparr>op_align = Left, op_x = 545, op_y = 660, op_text = str (int total_pages),
          op_font = ''Helvetica'', op_size = 10\<rparr>] \<and>
      set [\<lparr>op_align = Left, op_x = 500, op_y = 660, op_text = str (int p + 1),
            op_font = ''Helvetica'', op_size = 10\<rparr>,
           \<lparr>op_align = Left, op_x = 545, op_y = 660, op_text = str (int total_pages),
            op_font = ''Helvetica'', op_size = 10\<rparr>]
        \<subseteq> set (code (compose_overlay (Some h) p total_pages page_items)))"
proof -
  have rows: "\<And>page_items. filter (\<lambda>d. Y_TABLE_TOP_LINE < op_y d)
      (concat (map (\<lambda>(i, item). code (draw_row (Y_TABLE_TOP_LINE - 5) i item new_canvas))
         (enumerate 0 page_items))) = []"
    by (simp add: filter_concat comp_def case_prod_beta row_below_table_top)
  have 1: "generate_dd1750 env fs items template_path output_path None =
     (Inr (output_path, length items),
      fs(output_path \<mapsto>
         map (\<lambda>p. tpl p ! 0 @ map Text
              ([\<lparr>op_align = Left, op_x = 500, op_y = 660, op_text = str (int p + 1),
                 op_font = ''Helvetica'', op_size = 10\<rparr>,
                \<lparr>op_align = Left, op_x = 545, op_y = 660,
                 op_text = str (int (nat \<lceil>real (length items) / 18\<rceil>)),
                 op_font = ''Helvetica'', op_size = 10\<rparr>] @
               concat (map (\<lambda>(i, item). code (draw_row (Y_TABLE_TOP_LINE - 5) i item new_canvas))
                       (enumerate 0 (page_items_of items p)))))
           [0..<nat \<lceil>real (length items) / 18\<rceil>]))"
    using generate_dd1750_pages18 [OF assms, of fs None]
    by (simp only: compose_overlay_None_code)
  have 2: "filter (\<lambda>d. Y_TABLE_TOP_LINE < op_y d)
          (code (compose_overlay None p total_pages page_items)) =
        [\<lparr>op_align = Left, op_x = 500, op_y = 660, op_text = str (int p + 1),
          op_font = ''Helvetica'', op_size = 10\<rparr>,
         \<lparr>op_align = Left, op_x = 545, op_y = 660, op_text = str (int total_pages),
          op_font = ''Helvetica'', op_size = 10\<rparr>]" for p total_pages page_items
    unfolding compose_overlay_None_code using rows [of page_items]
    by (simp add: Y_TABLE_TOP_LINE_def)
  have 3: "set [\<lparr>op_align = Left, op_x = 500, op_y = 660, op_text = str (int p + 1),
            op_font = ''Helvetica'', op_size = 10\<rparr>,
           \<lparr>op_align = Left, op_x = 545, op_y = 660, op_text = str (int total_pages),
            op_font = ''Helvetica'', op_size = 10\<rparr>]
        \<subseteq> set (code (compose_overlay (Some h) p total_pages page_items))"
    for p total_pages page_items h
    unfolding compose_overlay_Some_code draw_header_code by simp
  from 1 2 3 show ?thesis by blast
qed

text \<open>Nineteen items, no header: the second page, and the draws above the table.\<close>

theorem page_numbers_without_header_witness:
  "fst (generate_dd1750
      \<lparr>read_pdf = (\<lambda>k p. Inr [[Graphics ''DD1750'']]), can_open_wb = (\<lambda>p. True)\<rparr> Map.empty
      (map (\<lambda>k. \<lparr>line_no = int k, description = ''NUT'', nsn = [],
         unit_of_issue = ''EA'', initial_qty = 1, spares_qty = 0, total_qty = 1\<rparr>) [1..<20])
      ''blank.pdf'' ''out.pdf'' None) = Inr (''out.pdf'', 19) \<and>
   map_option (\<lambda>doc. doc ! 1) (snd (generate_dd1750
      \<lparr>read_pdf = (\<lambda>k p. Inr [[Graphics ''DD1750'']]), can_open_wb = (\<lambda>p. True)\<rparr> Map.empty
      (map (\<lambda>k. \<lparr>line_no = int k, description = ''NUT'', nsn = [],
         unit_of_issue = ''EA'', initial_qty = 1, spares_qty = 0, total_qty = 1\<rparr>) [1..<20])
      ''blank.pdf'' ''out.pdf'' None) ''out.pdf'') =
     Some [Graphics ''DD1750'',
         Text \<lparr>op_align = Left, op_x = 500, op_y = 660, op_text = ''2'',
            op_font = ''Helvetica'', op_size = 10\<rparr>,
         Text \<lparr>op_align = Left, op_x = 545, op_y = 660, op_text = ''2'',
            op_font = ''Helvetica'', op_size = 10\<rparr>,
         Text \<lparr>op_align = Centred, op_x = 66, op_y = 604, op_text = ''19'',
            op_font = ''Helvetica'', op_size = 8\<rparr>,
         Text \<lparr>op_align = Left, op_x = 91, op_y = 604, op_text = ''NUT'',
            op_font = ''Helvetica'', op_size = 7\<rparr>,
         Text \<lparr>op_align = Centred, op_x = 386.75, op_y = 604, op_text = ''EA'',
            op_font = ''Helvetica'', op_size = 8\<rparr>,
         Text \<lparr>op_align = Centred, op_x = 431, op_y = 604, op_text = ''1'',
            op_font = ''Helvetica'', op_size = 8\<rparr>,
         Text \<lparr>op_align = Centred, op_x = 484, op_y = 604, op_text = ''0'',
            op_font = ''Helvetica'', op_size = 8\<rparr>,
         Text \<lparr>op_align = Centred, op_x = 540.25, op_y = 604, op_text = ''1'',
            op_font = ''Helvetica'', op_size = 8\<rparr>] \<and>
   filter (\<lambda>d. Y_TABLE_TOP_LINE < op_y d)
     (code (compose_overlay None 1 2 [\<lparr>line_no = 19, description = ''NUT'', nsn = [],
         unit_of_issue = ''EA'', initial_qty = 1, spares_qty = 0, total_qty = 1\<rparr>])) =
     [\<lparr>op_align = Left, op_x = 500, op_y = 660, op_text = ''2'',
            op_font = ''Helvetica'', op_size = 10\<rparr>,
      \<lparr>op_align = Left, op_x = 545, op_y = 660, op_text = ''2'',
            op_font = ''Helvetica'', op_size = 10\<rparr>]"
  using page_numbers_without_header [of "map (\<lambda>k. \<lparr>line_no = int k, description = ''NUT'', nsn = [],
         unit_of_issue = ''EA'', initial_qty = 1, spares_qty = 0, total_qty = 1\<rparr>) [1..<20]" "\<lparr>read_pdf = (\<lambda>k p. Inr [[Graphics ''DD1750'']]), can_open_wb = (\<lambda>p. True)\<rparr>" "''blank.pdf''" "\<lambda>p. [[Graphics ''DD1750'']]" "''out.pdf''" Map.empty]
  by (simp add: page_items_of_def slice_def ROWS_PER_PAGE_def draw_row_code new_canvas_def
        ROW_H_eq column_defs Y_TABLE_TOP_LINE_def str_eval upt_rec)

text \<open>
  C9. The draws of a run are a function of the items and the header alone. Two
  successful runs on the same items and header, whatever the files present before,
  the paths, and the outcome of each template read, write documents whose page \<open>p\<close> is
  the template page read for it followed by the same sequence of draws: the same texts
  at the same positions in the same fonts and sizes. With the same template the two
  documents are equal.
\<close>

theorem rendering_deterministic:
  assumes "\<forall>p < max 1 (nat \<lceil>real (length items) / 18\<rceil>).
             read_pdf env1 p template1 = Inr (tpl1 p) \<and> tpl1 p \<noteq> []"
    and "can_open_wb env1 output1"
    and "\<forall>p < max 1 (nat \<lceil>real (length items) / 18\<rceil>).
             read_pdf env2 p template2 = Inr (tpl2 p) \<and> tpl2 p \<noteq> []"
    and "can_open_wb env2 output2"
  shows "let draws = (\<lambda>p. (case header of
                   None \<Rightarrow>
                     [\<lparr>op_align = Left, op_x = 500, op_y = 660, op_text = str (int p + 1),
                 op_font = ''Helvetica'', op_size = 10\<rparr>,
                      \<lparr>op_align = Left, op_x = 545, op_y = 660,
                 op_text = str (int (nat \<lceil>real (length items) / 18\<rceil>)),
                 op_font = ''Helvetica'', op_size = 10\<rparr>]
                 | Some h \<Rightarrow>
                     (if packed_by h \<noteq> []
      then [\<lparr>op_align = Left, op_x = 95, op_y = 735, op_text = packed_by h,
              op_font = ''Helvetica'', op_size = 10\<rparr>]
      else []) @
     (if no_boxes h \<noteq> []
      then [\<lparr>op_align = Left, op_x = 240, op_y = 735, op_text = no_boxes h,
              op_font = ''Helvetica'', op_size = 10\<rparr>]
      else []) @
     (if requisition_no h \<noteq> []
      then [\<lparr>op_align = Left, op_x = 370, op_y = 735, op_text = requisition_no h,
              op_font = ''Helvetica'', op_size = 10\<rparr>]
      else []) @
     (if order_no h \<noteq> []
      then [\<lparr>op_align = Left, op_x = 370, op_y = 710, op_text = order_no h,
              op_font = ''Helvetica'', op_size = 10\<rparr>]
      else []) @
     (if end_item h \<noteq> []
      then [\<lparr>op_align = Left, op_x = 95, op_y = 685, op_text = take 60 (end_item h),
              op_font = ''Helvetica'', op_size = 8\<rparr>]
      else []) @
     (if date h \<noteq> []
      then [\<lparr>op_align = Left, op_x = 500, op_y = 685, op_text = date h,
              op_font = ''Helvetica'', op_size = 10\<rparr>]
      else []) @
     [\<lparr>op_align = Left, op_x = 500, op_y = 660, op_text = str (int p + 1),
       op_font = ''Helvetica'', op_size = 10\<rparr>,
      \<lparr>op_align = Left, op_x = 545, op_y = 660, op_text = str (int (nat \<lceil>real (length items) / 18\<rceil>)),
       op_font = ''Helvetica'', op_size = 10\<rparr>] @
     (if certifier_name h \<noteq> []
      then [\<lparr>op_align = Left, op_x = 95, op_y = 55, op_text = certifier_name h,
              op_font = ''Helvetica'', op_size = 9\<rparr>]
      else []) @
     (if certifier_title h \<noteq> []
      then [\<lparr>op_align = Left, op_x = 280, op_y = 55, op_text = certifier_title h,
              op_font = ''Helvetica'', op_size = 9\<rparr>]
      else [])) @
               concat (map (\<lambda>(i, item).
        [\<lparr>op_align = Centred, op_x = (X_BOX_L + X_BOX_R) / 2,
          op_y = (616 - 5) - real i * ROW_H - 7,
          op_text = str (line_no item), op_font = ''Helvetica'', op_size = 8\<rparr>,
         \<lparr>op_align = Left, op_x = X_CONTENT_L + 3,
          op_y = (616 - 5) - real i * ROW_H - 7,
          op_text = take 50 (description item), op_font = ''Helvetica'', op_size = 7\<rparr>] @
        (if nsn item \<noteq> []
         then [\<lparr>op_align = Left, op_x = X_CONTENT_L + 3,
                 op_y = (616 - 5) - real i * ROW_H - 17,
                 op_text = ''NSN: '' @ nsn item, op_font = ''Helvetica'', op_size = 6\<rparr>]
         else []) @
        [\<lparr>op_align = Centred, op_x = (X_UOI_L + X_UOI_R) / 2,
          op_y = (616 - 5) - real i * ROW_H - 7,
          op_text = unit_of_issue item, op_font = ''Helvetica'', op_size = 8\<rparr>,
         \<lparr>op_align = Centred, op_x = (X_INIT_L + X_INIT_R) / 2,
          op_y = (616 - 5) - real i * ROW_H - 7,
          op_text = str (initial_qty item), op_font = ''Helvetica'', op_size = 8\<rparr>,
         \<lparr>op_align = Centred, op_x = (X_SPARES_L + X_SPARES_R) / 2,
          op_y = (616 - 5) - real i * ROW_H - 7,
          op_text = str (spares_qty item), op_font = ''Helvetica'', op_size = 8\<rparr>,
         \<lparr>op_align = Centred, op_x = (X_TOTAL_L + X_TOTAL_R) / 2,
          op_y = (616 - 5) - real i * ROW_H - 7,
          op_text = str (total_qty item), op_font = ''Helvetica'', op_size = 8\<rparr>])
                 (enumerate 0 (take 18 (drop (18 * p) items)))))
     in generate_dd1750 env1 fs1 items template1 output1 header =
       (Inr (output1, length items),
        fs1(output1 \<mapsto>
          (if items = [] then [tpl1 0 ! 0]
           else map (\<lambda>p. tpl1 p ! 0 @ map Text (draws p))
                  [0..<nat \<lceil>real (length items) / 18\<rceil>]))) \<and>
        generate_dd1750 env2 fs2 items template2 output2 header =
       (Inr (output2, length items),
        fs2(output2 \<mapsto>
          (if items = [] then [tpl2 0 ! 0]
           else map (\<lambda>p. tpl2 p ! 0 @ map Text (draws p))
                  [0..<nat \<lceil>real (length items) / 18\<rceil>]))) \<and>
        (tpl1 = tpl2 \<longrightarrow>
           snd (generate_dd1750 env1 fs1 items template1 output1 header) output1 =
           snd (generate_dd1750 env2 fs2 items template2 output2 header) output2)"
proof -
  define draws where "draws = (\<lambda>p. (case header of
                   None \<Rightarrow>
                     [\<lparr>op_align = Left, op_x = 500, op_y = 660, op_text = str (int p + 1),
                 op_font = ''Helvetica'', op_size = 10\<rparr>,
                      \<lparr>op_align = Left, op_x = 545, op_y = 660,
                 op_text = str (int (nat \<lceil>real (length items) / 18\<rceil>)),
                 op_font = ''Helvetica'', op_size = 10\<rparr>]
                 | Some h \<Rightarrow>
                     (if packed_by h \<noteq> []
      then [\<lparr>op_align = Left, op_x = 95, op_y = 735, op_text = packed_by h,
              op_font = ''Helvetica'', op_size = 10\<rparr>]
      else []) @
     (if no_boxes h \<noteq> []
      then [\<lparr>op_align = Left, op_x = 240, op_y = 735, op_text = no_boxes h,
              op_font = ''Helvetica'', op_size = 10\<rparr>]
      else []) @
     (if requisition_no h \<noteq> []
      then [\<lparr>op_align = Left, op_x = 370, op_y = 735, op_text = requisition_no h,
              op_font = ''Helvetica'', op_size = 10\<rparr>]
      else []) @
     (if order_no h \<noteq> []
      then [\<lparr>op_align = Left, op_x = 370, op_y = 710, op_text = order_no h,
              op_font = ''Helvetica'', op_size = 10\<rparr>]
      else []) @
     (if end_item h \<noteq> []
      then [\<lparr>op_align = Left, op_x = 95, op_y = 685, op_text = take 60 (end_item h),
              op_font = ''Helvetica'', op_size = 8\<rparr>]
      else []) @
     (if date h \<noteq> []
      then [\<lparr>op_align = Left, op_x = 500, op_y = 685, op_text = date h,
              op_font = ''Helvetica'', op_size = 10\<rparr>]
      else []) @
     [\<lparr>op_align = Left, op_x = 500, op_y = 660, op_text = str (int p + 1),
       op_font = ''Helvetica'', op_size = 10\<rparr>,
      \<lparr>op_align = Left, op_x = 545, op_y = 660, op_text = str (int (nat \<lceil>real (length items) / 18\<rceil>)),
       op_font = ''Helvetica'', op_size = 10\<rparr>] @
     (if certifier_name h \<noteq> []
      then [\<lparr>op_align = Left, op_x = 95, op_y = 55, op_text = certifier_name h,
              op_font = ''Helvetica'', op_size = 9\<rparr>]
      else []) @
     (if certifier_title h \<noteq> []
      then [\<lparr>op_align = Left, op_x = 280, op_y = 55, op_text = certifier_title h,
              op_font = ''Helvetica'', op_size = 9\<rparr>]
      else [])) @
               concat (map (\<lambda>(i, item).
        [\<lparr>op_align = Centred, op_x = (X_BOX_L + X_BOX_R) / 2,
          op_y = (616 - 5) - real i * ROW_H - 7,
          op_text = str (line_no item), op_font = ''Helvetica'', op_size = 8\<rparr>,
         \<lparr>op_align = Left, op_x = X_CONTENT_L + 3,
          op_y = (616 - 5) - real i * ROW_H - 7,
          op_text = take 50 (description item), op_font = ''Helvetica'', op_size = 7\<rparr>] @
        (if nsn item \<noteq> []
         then [\<lparr>op_align = Left, op_x = X_CONTENT_L + 3,
                 op_y = (616 - 5) - real i * ROW_H - 17,
                 op_text = ''NSN: '' @ nsn item, op_font = ''Helvetica'', op_size = 6\<rparr>]
         else []) @
        [\<lparr>op_align = Centred, op_x = (X_UOI_L + X_UOI_R) / 2,
          op_y = (616 - 5) - real i * ROW_H - 7,
          op_text = unit_of_issue item, op_font = ''Helvetica'', op_size = 8\<rparr>,
         \<lparr>op_align = Centred, op_x = (X_INIT_L + X_INIT_R) / 2,
          op_y = (616 - 5) - real i * ROW_H - 7,
          op_text = str (initial_qty item), op_font = ''Helvetica'', op_size = 8\<rparr>,
         \<lparr>op_align = Centred, op_x = (X_SPARES_L + X_SPARES_R) / 2,
          op_y = (616 - 5) - real i * ROW_H - 7,
          op_text = str (spares_qty item), op_font = ''Helvetica'', op_size = 8\<rparr>,
         \<lparr>op_align = Centred, op_x = (X_TOTAL_L + X_TOTAL_R) / 2,
          op_y = (616 - 5) - real i * ROW_H - 7,
          op_text = str (total_qty item), op_font = ''Helvetica'', op_size = 8\<rparr>])
                 (enumerate 0 (take 18 (drop (18 * p) items)))))"
  have rows: "\<And>p. code (compose_overlay header p (nat \<lceil>real (length items) / 18\<rceil>) (page_items_of items p)) =
      draws p"
    unfolding draws_def
    by (cases header)
      (simp_all add: compose_overlay_None_code compose_overlay_Some_code draw_header_code
         page_items_of_eq18 draw_row_code new_canvas_def Y_TABLE_TOP_LINE_def
         cong del: if_weak_cong)
  have g1: "generate_dd1750 env1 fs1 items template1 output1 header =
       (Inr (output1, length items),
        fs1(output1 \<mapsto>
          (if items = [] then [tpl1 0 ! 0]
           else map (\<lambda>p. tpl1 p ! 0 @ map Text (code (compose_overlay header p
                       (nat \<lceil>real (length items) / 18\<rceil>) (page_items_of items p))))
                  [0..<nat \<lceil>real (length items) / 18\<rceil>])))"
    using assms(1,2) by (rule generate_dd1750_document)
  have g2: "generate_dd1750 env2 fs2 items template2 output2 header =
       (Inr (output2, length items),
        fs2(output2 \<mapsto>
          (if items = [] then [tpl2 0 ! 0]
           else map (\<lambda>p. tpl2 p ! 0 @ map Text (code (compose_overlay header p
                       (nat \<lceil>real (length items) / 18\<rceil>) (page_items_of items p))))
                  [0..<nat \<lceil>real (length items) / 18\<rceil>])))"
    using assms(3,4) by (rule generate_dd1750_document)
  have c1: "generate_dd1750 env1 fs1 items template1 output1 header =
       (Inr (output1, length items),
        fs1(output1 \<mapsto>
          (if items = [] then [tpl1 0 ! 0]
           else map (\<lambda>p. tpl1 p ! 0 @ map Text (draws p))
                  [0..<nat \<lceil>real (length items) / 18\<rceil>])))"
    using g1 by (simp only: rows)
  have c2: "generate_dd1750 env2 fs2 items template2 output2 header =
       (Inr (output2, length items),
        fs2(output2 \<mapsto>
          (if items = [] then [tpl2 0 ! 0]
           else map (\<lambda>p. tpl2 p ! 0 @ map Text (draws p))
                  [0..<nat \<lceil>real (length items) / 18\<rceil>])))"
    using g2 by (simp only: rows)
  have c3: "(tpl1 = tpl2 \<longrightarrow>
           snd (generate_dd1750 env1 fs1 items template1 output1 header) output1 =
           snd (generate_dd1750 env2 fs2 items template2 output2 header) output2)"
    by (simp add: g1 g2)
  show ?thesis
    unfolding Let_def draws_def [symmetric] by (rule conjI [OF c1 conjI [OF c2 c3]])
qed

text \<open>
  Two runs with different output paths and different earlier files write the same
  page, draw by draw.
\<close>

theorem rendering_deterministic_witness:
  "generate_dd1750
      \<lparr>read_pdf = (\<lambda>k p. Inr [[Graphics ''DD1750'']]), can_open_wb = (\<lambda>p. True)\<rparr> Map.empty
      [\<lparr>line_no = 1, description = ''WRENCH, ADJUSTABLE: 12 IN.'', nsn = ''123456789'',
         unit_of_issue = ''EA'', initial_qty = 2, spares_qty = 0, total_qty = 2\<rparr>]
      ''blank.pdf'' ''a.pdf''
      (Some \<lparr>packed_by = ''SGT DOE'', no_boxes = [], requisition_no = ''R1'', order_no = [],
         end_item = ''TRUCK'', date = ''2024-01-01'', certifier_name = ''J DOE'', certifier_title = []\<rparr>) =
     (Inr (''a.pdf'', 1), [''a.pdf'' \<mapsto> [[Graphics ''DD1750'',
         Text \<lparr>op_align = Left, op_x = 95, op_y = 735, op_text = ''SGT DOE'',
            op_font = ''Helvetica'', op_size = 10\<rparr>,
         Text \<lparr>op_align = Left, op_x = 370, op_y = 735, op_text = ''R1'',
            op_font = ''Helvetica'', op_size = 10\<rparr>,
         Text \<lparr>op_align = Left, op_x = 95, op_y = 685, op_text = ''TRUCK'',
            op_font = ''Helvetica'', op_size = 8\<rparr>,
         Text \<lparr>op_align = Left, op_x = 500, op_y = 685, op_text = ''2024-01-01'',
            op_font = ''Helvetica'', op_size = 10\<rparr>,
         Text \<lparr>op_align = Left, op_x = 500, op_y = 660, op_text = ''1'',
            op_font = ''Helvetica'', op_size = 10\<rparr>,
         Text \<lparr>op_align = Left, op_x = 545, op_y = 660, op_text = ''1'',
            op_font = ''Helvetica'', op_size = 10\<rparr>,
         Text \<lparr>op_align = Left, op_x = 95, op_y = 55, op_text = ''J DOE'',
            op_font = ''Helvetica'', op_size = 9\<rparr>,
         Text \<lparr>op_align = Centred, op_x = 66, op_y = 604, op_text = ''1'',
            op_font = ''Helvetica'', op_size = 8\<rparr>,
         Text \<lparr>op_align = Left, op_x = 91, op_y = 604, op_text = ''WRENCH, ADJUSTABLE: 12 IN.'',
            op_font = ''Helvetica'', op_size = 7\<rparr>,
         Text \<lparr>op_align = Left, op_x = 91, op_y = 594, op_text = ''NSN: 123456789'',
            op_font = ''Helvetica'', op_size = 6\<rparr>,
         Text \<lparr>op_align = Centred, op_x = 386.75, op_y = 604, op_text = ''EA'',
            op_font = ''Helvetica'', op_size = 8\<rparr>,
         Text \<lparr>op_align = Centred, op_x = 431, op_y = 604, op_text = ''2'',
            op_font = ''Helvetica'', op_size = 8\<rparr>,
         Text \<lparr>op_align = Centred, op_x = 484, op_y = 604, op_text = ''0'',
            op_font = ''Helvetica'', op_size = 8\<rparr>,
         Text \<lparr>op_align = Centred, op_x = 540.25, op_y = 604, op_text = ''2'',
            op_font = ''Helvetica'', op_size = 8\<rparr>]]]) \<and>
   snd (generate_dd1750
      \<lparr>read_pdf = (\<lambda>k p. Inr [[Graphics ''DD1750'']]), can_open_wb = (\<lambda>p. True)\<rparr>
      [''b.pdf'' \<mapsto> [], ''old.pdf'' \<mapsto> [[Graphics ''x'']]]
      [\<lparr>line_no = 1, description = ''WRENCH, ADJUSTABLE: 12 IN.'', nsn = ''123456789'',
         unit_of_issue = ''EA'', initial_qty = 2, spares_qty = 0, total_qty = 2\<rparr>]
      ''blank.pdf'' ''b.pdf''
      (Some \<lparr>packed_by = ''SGT DOE'', no_boxes = [], requisition_no = ''R1'', order_no = [],
         end_item = ''TRUCK'', date = ''2024-01-01'', certifier_name = ''J DOE'', certifier_title = []\<rparr>)) ''b.pdf'' =
     Some [[Graphics ''DD1750'',
         Text \<lparr>op_align = Left, op_x = 95, op_y = 735, op_text = ''SGT DOE'',
            op_font = ''Helvetica'', op_size = 10\<rparr>,
         Text \<lparr>op_align = Left, op_x = 370, op_y = 735, op_text = ''R1'',
            op_font = ''Helvetica'', op_size = 10\<rparr>,
         Text \<lparr>op_align = Left, op_x = 95, op_y = 685, op_text = ''TRUCK'',
            op_font = ''Helvetica'', op_size = 8\<rparr>,
         Text \<lparr>op_align = Left, op_x = 500, op_y = 685, op_text = ''2024-01-01'',
            op_font = ''Helvetica'', op_size = 10\<rparr>,
         Text \<lparr>op_align = Left, op_x = 500, op_y = 660, op_text = ''1'',
            op_font = ''Helvetica'', op_size = 10\<rparr>,
         Text \<lparr>op_align = Left, op_x = 545, op_y = 660, op_text = ''1'',
            op_font = ''Helvetica'', op_size = 10\<rparr>,
         Text \<lparr>op_align = Left, op_x = 95, op_y = 55, op_text = ''J DOE'',
            op_font = ''Helvetica'', op_size = 9\<rparr>,
         Text \<lparr>op_align = Centred, op_x = 66, op_y = 604, op_text = ''1'',
            op_font = ''Helvetica'', op_size = 8\<rparr>,
         Text \<lparr>op_align = Left, op_x = 91, op_y = 604, op_text = ''WRENCH, ADJUSTABLE: 12 IN.'',
            op_font = ''Helvetica'', op_size = 7\<rparr>,
         Text \<lparr>op_align = Left, op_x = 91, op_y = 594, op_text = ''NSN: 123456789'',
            op_font = ''Helvetica'', op_size = 6\<rparr>,
         Text \<lparr>op_align = Centred, op_x = 386.75, op_y = 604, op_text = ''EA'',
            op_font = ''Helvetica'', op_size = 8\<rparr>,
         Text \<lparr>op_align = Centred, op_x = 431, op_y = 604, op_text = ''2'',
            op_font = ''Helvetica'', op_size = 8\<rparr>,
         Text \<lparr>op_align = Centred, op_x = 484, op_y = 604, op_text = ''0'',
            op_font = ''Helvetica'', op_size = 8\<rparr>,
         Text \<lparr>op_align = Centred, op_x = 540.25, op_y = 604, op_text = ''2'',
            op_font = ''Helvetica'', op_size = 8\<rparr>]]"
  using rendering_deterministic [where items = "[\<lparr>line_no = 1, description = ''WRENCH, ADJUSTABLE: 12 IN.'', nsn = ''123456789'',
         unit_of_issue = ''EA'', initial_qty = 2, spares_qty = 0, total_qty = 2\<rparr>]"
      and ?env1.0 = "\<lparr>read_pdf = (\<lambda>k p. Inr [[Graphics ''DD1750'']]), can_open_wb = (\<lambda>p. True)\<rparr>" and ?template1.0 = "''blank.pdf''"
      and ?tpl1.0 = "\<lambda>p. [[Graphics ''DD1750'']]" and ?output1.0 = "''a.pdf''"
      and ?env2.0 = "\<lparr>read_pdf = (\<lambda>k p. Inr [[Graphics ''DD1750'']]), can_open_wb = (\<lambda>p. True)\<rparr>" and ?template2.0 = "''blank.pdf''"
      and ?tpl2.0 = "\<lambda>p. [[Graphics ''DD1750'']]" and ?output2.0 = "''b.pdf''"
      and ?fs1.0 = Map.empty
      and header = "Some \<lparr>packed_by = ''SGT DOE'', no_boxes = [], requisition_no = ''R1'', order_no = [],
         end_item = ''TRUCK'', date = ''2024-01-01'', certifier_name = ''J DOE'', certifier_title = []\<rparr>"
      and ?fs2.0 = "[''b.pdf'' \<mapsto> [], ''old.pdf'' \<mapsto> [[Graphics ''x'']]]",
      unfolded total_pages_div18]
  by (simp add: draw_row_code new_canvas_def ROW_H_eq column_defs Y_TABLE_TOP_LINE_def
        str_eval compose_overlay_no_header)

end
